theory Spec2Isabelle
  imports Complex_Main "HOL-Library.Monad_Syntax"
begin

text \<open>
  A model of the diet planner's pipeline: the clean-up of an oracle reply and the two
  extraction functions of ai_dietitian.py, the pydantic models of models.py, and the
  session that app.py keeps between runs of the page. Exceptions are values, printing and
  oracle calls are listed in the result, and everything outside the repository (the
  oracle, \<open>json.loads\<close>, the pydantic library, the environment) is a parameter.
\<close>

section \<open>Strings and the clean-up of an oracle response\<close>

text \<open>
  Python strings are modelled as \<^typ>\<open>string\<close>, a list of 8-bit characters, so the
  code points of a text are those below 256. \<open>str.strip()\<close> without arguments removes
  the characters for which \<open>str.isspace\<close> holds; below 256 these are the code points
  9..13, 28..31, 32, 133 and 160.
\<close>

definition is_space :: "char \<Rightarrow> bool" where
  "is_space c = ((of_char c :: nat) \<in> set [9, 10, 11, 12, 13, 28, 29, 30, 31, 32, 133, 160])"

definition lstrip :: "string \<Rightarrow> string" where
  "lstrip s = dropWhile is_space s"

definition rstrip :: "string \<Rightarrow> string" where
  "rstrip s = rev (dropWhile is_space (rev s))"

definition strip :: "string \<Rightarrow> string" where
  "strip s = rstrip (lstrip s)"

text \<open>\<open>s.startswith(p)\<close> and \<open>s.endswith(p)\<close>.\<close>

definition startswith :: "string \<Rightarrow> string \<Rightarrow> bool" where
  "startswith s p = (take (length p) s = p)"

definition endswith :: "string \<Rightarrow> string \<Rightarrow> bool" where
  "endswith s p = (length p \<le> length s \<and> drop (length s - length p) s = p)"

text \<open>
  The two markers the code looks for: three backquotes (code point 96), and three
  backquotes followed by \<open>json\<close>.
\<close>

definition fence :: string where
  "fence = [CHR 0x60, CHR 0x60, CHR 0x60]"

definition json_fence :: string where
  "json_fence = fence @ ''json''"

text \<open>
  The clean-up that \<open>extract_user_profile\<close> (ai_dietitian.py, lines 166-171) and
  \<open>create_diet_plan\<close> (lines 236-241) both apply to the oracle's text:
  \<^verbatim>\<open>
  content = response.choices[0].message.content.strip()
  if content.startswith("```json"):
      content = content[7:]
  if content.endswith("```"):
      content = content[:-3]
  \<close>
  \<open>content[7:]\<close> is \<open>drop 7\<close>; \<open>content[:-3]\<close> on a text of at least three characters
  is \<open>take (length content - 3)\<close>, and \<open>endswith\<close> guarantees that length.
\<close>

definition sanitize :: "string \<Rightarrow> string" where
  "sanitize raw =
     (let content = strip raw;
          content = (if startswith content json_fence then drop 7 content else content);
          content = (if endswith content fence then take (length content - 3) content else content)
      in content)"

section \<open>Parsed JSON\<close>

text \<open>
  The values \<open>json.loads\<close> builds: \<open>None\<close>, \<open>bool\<close>, \<open>int\<close>, \<open>float\<close>, \<open>str\<close>, \<open>list\<close>
  and \<open>dict\<close>. A float is kept as the real number it denotes. A \<open>dict\<close> is an association
  list that holds each key once, read with \<^const>\<open>map_of\<close> (\<open>d.get(k)\<close>).
\<close>

datatype json =
    JNull
  | JBool bool
  | JInt int
  | JFloat real
  | JString string
  | JArray "json list"
  | JObject "(string \<times> json) list"

section \<open>The data model (models.py)\<close>

datatype ActivityLevel =
  SEDENTARY | LIGHTLY_ACTIVE | MODERATELY_ACTIVE | VERY_ACTIVE | EXTREMELY_ACTIVE

fun ActivityLevel_value :: "ActivityLevel \<Rightarrow> string" where
  "ActivityLevel_value SEDENTARY = ''sedentary''"
| "ActivityLevel_value LIGHTLY_ACTIVE = ''lightly_active''"
| "ActivityLevel_value MODERATELY_ACTIVE = ''moderately_active''"
| "ActivityLevel_value VERY_ACTIVE = ''very_active''"
| "ActivityLevel_value EXTREMELY_ACTIVE = ''extremely_active''"

definition ActivityLevel_members :: "ActivityLevel list" where
  "ActivityLevel_members =
     [SEDENTARY, LIGHTLY_ACTIVE, MODERATELY_ACTIVE, VERY_ACTIVE, EXTREMELY_ACTIVE]"

datatype Goal =
  WEIGHT_LOSS | WEIGHT_GAIN | MAINTENANCE | MUSCLE_GAIN | GENERAL_HEALTH

fun Goal_value :: "Goal \<Rightarrow> string" where
  "Goal_value WEIGHT_LOSS = ''weight_loss''"
| "Goal_value WEIGHT_GAIN = ''weight_gain''"
| "Goal_value MAINTENANCE = ''maintenance''"
| "Goal_value MUSCLE_GAIN = ''muscle_gain''"
| "Goal_value GENERAL_HEALTH = ''general_health''"

definition Goal_members :: "Goal list" where
  "Goal_members = [WEIGHT_LOSS, WEIGHT_GAIN, MAINTENANCE, MUSCLE_GAIN, GENERAL_HEALTH]"

datatype DietaryRestriction =
  NONE | VEGETARIAN | VEGAN | GLUTEN_FREE | DAIRY_FREE | NUT_FREE | LOW_CARB | KETO | PALEO

fun DietaryRestriction_value :: "DietaryRestriction \<Rightarrow> string" where
  "DietaryRestriction_value NONE = ''none''"
| "DietaryRestriction_value VEGETARIAN = ''vegetarian''"
| "DietaryRestriction_value VEGAN = ''vegan''"
| "DietaryRestriction_value GLUTEN_FREE = ''gluten_free''"
| "DietaryRestriction_value DAIRY_FREE = ''dairy_free''"
| "DietaryRestriction_value NUT_FREE = ''nut_free''"
| "DietaryRestriction_value LOW_CARB = ''low_carb''"
| "DietaryRestriction_value KETO = ''keto''"
| "DietaryRestriction_value PALEO = ''paleo''"

definition DietaryRestriction_members :: "DietaryRestriction list" where
  "DietaryRestriction_members =
     [NONE, VEGETARIAN, VEGAN, GLUTEN_FREE, DAIRY_FREE, NUT_FREE, LOW_CARB, KETO, PALEO]"

datatype MealTime = BREAKFAST | LUNCH | DINNER | SNACKS

fun MealTime_value :: "MealTime \<Rightarrow> string" where
  "MealTime_value BREAKFAST = ''breakfast''"
| "MealTime_value LUNCH = ''lunch''"
| "MealTime_value DINNER = ''dinner''"
| "MealTime_value SNACKS = ''snacks''"

definition MealTime_members :: "MealTime list" where
  "MealTime_members = [BREAKFAST, LUNCH, DINNER, SNACKS]"

text \<open>
  The fields of the four models, in the order of their declaration. \<open>Dict[str, str]\<close> and
  \<open>Dict[str, Any]\<close> are association lists; a value of type \<open>Any\<close> stays the parsed JSON.
  The field \<open>notes\<close> of \<open>DailyPlan\<close> is written \<open>day_notes\<close> (\<open>notes\<close> is reserved in Isabelle).
\<close>

record UserProfile =
  name :: string
  age :: int
  gender :: string
  height_cm :: real
  weight_kg :: real
  target_weight_kg :: "real option"
  activity_level :: ActivityLevel
  goal :: Goal
  dietary_restrictions :: "DietaryRestriction list"
  allergies :: "string list"
  preferences :: "string list"
  dislikes :: "string list"
  daily_routine :: "(string \<times> string) list"
  cooking_skill :: string
  budget_constraint :: "string option"
  cultural_preferences :: "string list"

record MealPlan =
  meal_time :: MealTime
  meal_name :: string
  description :: string
  ingredients :: "string list"
  instructions :: "string list"
  nutrition_info :: "(string \<times> json) list"
  prep_time :: string
  cooking_time :: string
  difficulty :: string

record DailyPlan =
  day :: string
  meals :: "MealPlan list"
  total_calories :: int
  total_protein :: real
  total_carbs :: real
  total_fat :: real
  day_notes :: "string option"

record WeeklyDietPlan =
  user_profile :: UserProfile
  daily_plans :: "DailyPlan list"
  weekly_summary :: "(string \<times> json) list"
  recommendations :: "string list"
  shopping_list :: "string list"
  created_date :: string

section \<open>Validation of a model's fields\<close>

text \<open>
  The models are pydantic models; the library is not part of the repository and the
  repository pins no version of it. What every version does is written out below: a value
  of the declared JSON type is taken as it is, \<open>null\<close> is refused for a field that is not
  \<open>Optional\<close>, a \<open>List\<close> field takes a JSON array and validates each element, an enum field
  takes exactly the text of one of its members, and a field declared with
  \<open>Field(description=...)\<close> and no default is required. Where the versions differ the
  behaviour is a parameter: how a value of another JSON type is coerced (the number 30
  for a \<open>str\<close> field, the text \<open>"30"\<close> for an \<open>int\<close> field, a list of pairs for a \<open>dict\<close>),
  and whether an \<open>Optional\<close> field without default may be left out (it then is \<open>None\<close>) or
  is required.
\<close>

record pydantic =
  lax_str :: "json \<Rightarrow> string option"
  lax_int :: "json \<Rightarrow> int option"
  lax_float :: "json \<Rightarrow> real option"
  lax_dict :: "json \<Rightarrow> (string \<times> json) list option"
  optional_default :: bool

definition str_validator :: "pydantic \<Rightarrow> json \<Rightarrow> string option" where
  "str_validator L v = (case v of JString s \<Rightarrow> Some s | JNull \<Rightarrow> None | _ \<Rightarrow> lax_str L v)"

definition int_validator :: "pydantic \<Rightarrow> json \<Rightarrow> int option" where
  "int_validator L v = (case v of JInt n \<Rightarrow> Some n | JNull \<Rightarrow> None | _ \<Rightarrow> lax_int L v)"

definition float_validator :: "pydantic \<Rightarrow> json \<Rightarrow> real option" where
  "float_validator L v = (case v of JFloat x \<Rightarrow> Some x | JNull \<Rightarrow> None | _ \<Rightarrow> lax_float L v)"

definition dict_validator :: "pydantic \<Rightarrow> json \<Rightarrow> (string \<times> json) list option" where
  "dict_validator L v = (case v of JObject kvs \<Rightarrow> Some kvs | JNull \<Rightarrow> None | _ \<Rightarrow> lax_dict L v)"

definition list_validator :: "(json \<Rightarrow> 'a option) \<Rightarrow> json \<Rightarrow> 'a list option" where
  "list_validator item v = (case v of JArray xs \<Rightarrow> those (map item xs) | _ \<Rightarrow> None)"

definition str_dict_validator :: "pydantic \<Rightarrow> json \<Rightarrow> (string \<times> string) list option" where
  "str_dict_validator L v =
     do {
       kvs \<leftarrow> dict_validator L v;
       those (map (\<lambda>(k, x). map_option (Pair k) (str_validator L x)) kvs)
     }"

text \<open>An enum field: the member whose value is the given text (\<open>ActivityLevel(v)\<close>).\<close>

definition ActivityLevel_validator :: "json \<Rightarrow> ActivityLevel option" where
  "ActivityLevel_validator v =
     (case v of JString s \<Rightarrow> find (\<lambda>m. ActivityLevel_value m = s) ActivityLevel_members
      | _ \<Rightarrow> None)"

definition Goal_validator :: "json \<Rightarrow> Goal option" where
  "Goal_validator v =
     (case v of JString s \<Rightarrow> find (\<lambda>m. Goal_value m = s) Goal_members | _ \<Rightarrow> None)"

definition DietaryRestriction_validator :: "json \<Rightarrow> DietaryRestriction option" where
  "DietaryRestriction_validator v =
     (case v of JString s \<Rightarrow> find (\<lambda>m. DietaryRestriction_value m = s) DietaryRestriction_members
      | _ \<Rightarrow> None)"

definition MealTime_validator :: "json \<Rightarrow> MealTime option" where
  "MealTime_validator v =
     (case v of JString s \<Rightarrow> find (\<lambda>m. MealTime_value m = s) MealTime_members | _ \<Rightarrow> None)"

text \<open>
  A field without default (every field but the \<open>Optional\<close> ones): a missing key fails the
  validation. An \<open>Optional\<close> field: \<open>null\<close> is \<open>None\<close>; a missing key is \<open>None\<close> or a failure,
  as the library has it.
\<close>

definition required :: "(string \<times> json) list \<Rightarrow> string \<Rightarrow> (json \<Rightarrow> 'a option) \<Rightarrow> 'a option" where
  "required data k validator =
     (case map_of data k of None \<Rightarrow> None | Some v \<Rightarrow> validator v)"

definition optional ::
  "pydantic \<Rightarrow> (string \<times> json) list \<Rightarrow> string \<Rightarrow> (json \<Rightarrow> 'a option) \<Rightarrow> 'a option option" where
  "optional L data k validator =
     (case map_of data k of
        None \<Rightarrow> (if optional_default L then Some None else None)
      | Some JNull \<Rightarrow> Some None
      | Some v \<Rightarrow> map_option Some (validator v))"

text \<open>
  \<open>UserProfile(**profile_data)\<close>: every field is validated, keys that name no field are
  ignored, and the model is built when no field failed (\<open>None\<close> stands for the raised
  \<open>ValidationError\<close>).
\<close>

definition UserProfile_init :: "pydantic \<Rightarrow> (string \<times> json) list \<Rightarrow> UserProfile option" where
  "UserProfile_init L data =
     do {
       v_name \<leftarrow> required data ''name'' (str_validator L);
       v_age \<leftarrow> required data ''age'' (int_validator L);
       v_gender \<leftarrow> required data ''gender'' (str_validator L);
       v_height_cm \<leftarrow> required data ''height_cm'' (float_validator L);
       v_weight_kg \<leftarrow> required data ''weight_kg'' (float_validator L);
       v_target_weight_kg \<leftarrow> optional L data ''target_weight_kg'' (float_validator L);
       v_activity_level \<leftarrow> required data ''activity_level'' ActivityLevel_validator;
       v_goal \<leftarrow> required data ''goal'' Goal_validator;
       v_dietary_restrictions \<leftarrow>
         required data ''dietary_restrictions'' (list_validator DietaryRestriction_validator);
       v_allergies \<leftarrow> required data ''allergies'' (list_validator (str_validator L));
       v_preferences \<leftarrow> required data ''preferences'' (list_validator (str_validator L));
       v_dislikes \<leftarrow> required data ''dislikes'' (list_validator (str_validator L));
       v_daily_routine \<leftarrow> required data ''daily_routine'' (str_dict_validator L);
       v_cooking_skill \<leftarrow> required data ''cooking_skill'' (str_validator L);
       v_budget_constraint \<leftarrow> optional L data ''budget_constraint'' (str_validator L);
       v_cultural_preferences \<leftarrow>
         required data ''cultural_preferences'' (list_validator (str_validator L));
       Some \<lparr>name = v_name, age = v_age, gender = v_gender, height_cm = v_height_cm,
         weight_kg = v_weight_kg, target_weight_kg = v_target_weight_kg,
         activity_level = v_activity_level, goal = v_goal,
         dietary_restrictions = v_dietary_restrictions, allergies = v_allergies,
         preferences = v_preferences, dislikes = v_dislikes,
         daily_routine = v_daily_routine, cooking_skill = v_cooking_skill,
         budget_constraint = v_budget_constraint,
         cultural_preferences = v_cultural_preferences\<rparr>
     }"

definition MealPlan_init :: "pydantic \<Rightarrow> (string \<times> json) list \<Rightarrow> MealPlan option" where
  "MealPlan_init L data =
     do {
       v_meal_time \<leftarrow> required data ''meal_time'' MealTime_validator;
       v_meal_name \<leftarrow> required data ''meal_name'' (str_validator L);
       v_description \<leftarrow> required data ''description'' (str_validator L);
       v_ingredients \<leftarrow> required data ''ingredients'' (list_validator (str_validator L));
       v_instructions \<leftarrow> required data ''instructions'' (list_validator (str_validator L));
       v_nutrition_info \<leftarrow> required data ''nutrition_info'' (dict_validator L);
       v_prep_time \<leftarrow> required data ''prep_time'' (str_validator L);
       v_cooking_time \<leftarrow> required data ''cooking_time'' (str_validator L);
       v_difficulty \<leftarrow> required data ''difficulty'' (str_validator L);
       Some \<lparr>meal_time = v_meal_time, meal_name = v_meal_name, description = v_description,
         ingredients = v_ingredients, instructions = v_instructions,
         nutrition_info = v_nutrition_info, prep_time = v_prep_time,
         cooking_time = v_cooking_time, difficulty = v_difficulty\<rparr>
     }"

text \<open>A field whose type is a model: the value is read as a \<open>dict\<close> and the model built from it.\<close>

definition MealPlan_validator :: "pydantic \<Rightarrow> json \<Rightarrow> MealPlan option" where
  "MealPlan_validator L v = do { data \<leftarrow> dict_validator L v; MealPlan_init L data }"

definition DailyPlan_init :: "pydantic \<Rightarrow> (string \<times> json) list \<Rightarrow> DailyPlan option" where
  "DailyPlan_init L data =
     do {
       v_day \<leftarrow> required data ''day'' (str_validator L);
       v_meals \<leftarrow> required data ''meals'' (list_validator (MealPlan_validator L));
       v_total_calories \<leftarrow> required data ''total_calories'' (int_validator L);
       v_total_protein \<leftarrow> required data ''total_protein'' (float_validator L);
       v_total_carbs \<leftarrow> required data ''total_carbs'' (float_validator L);
       v_total_fat \<leftarrow> required data ''total_fat'' (float_validator L);
       v_notes \<leftarrow> optional L data ''notes'' (str_validator L);
       Some \<lparr>day = v_day, meals = v_meals, total_calories = v_total_calories,
         total_protein = v_total_protein, total_carbs = v_total_carbs,
         total_fat = v_total_fat, day_notes = v_notes\<rparr>
     }"

definition DailyPlan_validator :: "pydantic \<Rightarrow> json \<Rightarrow> DailyPlan option" where
  "DailyPlan_validator L v = do { data \<leftarrow> dict_validator L v; DailyPlan_init L data }"

definition UserProfile_validator :: "pydantic \<Rightarrow> json \<Rightarrow> UserProfile option" where
  "UserProfile_validator L v = do { data \<leftarrow> dict_validator L v; UserProfile_init L data }"

definition WeeklyDietPlan_init :: "pydantic \<Rightarrow> (string \<times> json) list \<Rightarrow> WeeklyDietPlan option" where
  "WeeklyDietPlan_init L data =
     do {
       v_user_profile \<leftarrow> required data ''user_profile'' (UserProfile_validator L);
       v_daily_plans \<leftarrow> required data ''daily_plans'' (list_validator (DailyPlan_validator L));
       v_weekly_summary \<leftarrow> required data ''weekly_summary'' (dict_validator L);
       v_recommendations \<leftarrow> required data ''recommendations'' (list_validator (str_validator L));
       v_shopping_list \<leftarrow> required data ''shopping_list'' (list_validator (str_validator L));
       v_created_date \<leftarrow> required data ''created_date'' (str_validator L);
       Some \<lparr>user_profile = v_user_profile, daily_plans = v_daily_plans,
         weekly_summary = v_weekly_summary, recommendations = v_recommendations,
         shopping_list = v_shopping_list, created_date = v_created_date\<rparr>
     }"

section \<open>The dietitian service (ai_dietitian.py)\<close>

text \<open>A message of a conversation is a \<open>dict\<close> with the keys \<open>role\<close> and \<open>content\<close>.\<close>

record message =
  role :: string
  content :: string

text \<open>The keyword arguments of \<open>openai.ChatCompletion.create\<close>.\<close>

record request =
  req_model :: string
  req_messages :: "message list"
  max_tokens :: nat
  temperature :: real

text \<open>
  What lies outside the repository is a parameter of the model: the configuration read
  from the environment (config.py), the oracle (\<open>openai.ChatCompletion.create\<close> followed by
  \<open>.choices[0].message.content\<close>; \<open>Inl\<close> carries the text of the exception it raised),
  \<open>json.loads\<close> (\<open>Inl\<close> carries the text of its \<open>JSONDecodeError\<close>), the pydantic library and
  the PDF renderer. The wording of the fixed prompt texts of ai_dietitian.py plays no part
  in any property below; the texts and the two prompt templates (an f-string around
  \<open>json.dumps\<close> of the history, and one around \<open>user_profile.json\<close>) are parameters too.
\<close>

record world =
  OPENAI_API_KEY :: "string option"
  OPENAI_MODEL :: string
  system_prompt_text :: string
  few_shot_example_texts :: "(string \<times> string) list"
  cot_profile_extraction_text :: string
  cot_meal_planning_text :: string
  cot_nutrition_calculation_text :: string
  extraction_prompt :: "string \<Rightarrow> message list \<Rightarrow> string"
  plan_prompt :: "string \<Rightarrow> UserProfile \<Rightarrow> string"
  ChatCompletion_create :: "request \<Rightarrow> string + string"
  json_loads :: "string \<Rightarrow> string + json"
  pydantic_lib :: pydantic
  generate_diet_plan_pdf :: "WeeklyDietPlan \<Rightarrow> string + string"

text \<open>
  The exceptions the code can meet, and what a run does beyond returning: the calls to the
  oracle (tagged with the function that makes them), the lines printed, and the notices
  shown to the user.
\<close>

datatype error =
    ValueError string
  | OracleError string
  | JSONDecodeError string
  | TypeError
  | ValidationError

datatype call_site = Chat | ProfileExtraction | PlanGeneration

datatype notice =
    ProfileExtracted
  | CouldNotExtractProfile
  | PlanGenerated
  | CouldNotGeneratePlan
  | SorryError error
  | ErrorNotice error
  | PdfDownload string
  | PdfError string
  | MissingProfileOrPlan

datatype effect =
    OracleCall call_site request
  | PrintProfileError error
  | PrintPlanError error
  | Shown notice

text \<open>\<open>Config.validate()\<close>: a missing or empty key raises \<open>ValueError\<close>.\<close>

definition Config_validate :: "world \<Rightarrow> error + bool" where
  "Config_validate W =
     (if OPENAI_API_KEY W = None \<or> OPENAI_API_KEY W = Some []
      then Inl (ValueError ''OPENAI_API_KEY environment variable is required'')
      else Inr True)"

text \<open>
  The object \<open>AIDietitian.__init__\<close> builds. The dictionary \<open>cot_prompts\<close> has three fixed
  keys and is a record of three fields.
\<close>

record AIDietitian =
  model :: string
  system_prompt :: string
  few_shot_examples :: "(string \<times> string) list"
  cot_profile_extraction :: string
  cot_meal_planning :: string
  cot_nutrition_calculation :: string

definition AIDietitian_init :: "world \<Rightarrow> error + AIDietitian" where
  "AIDietitian_init W =
     (case Config_validate W of
        Inl e \<Rightarrow> Inl e
      | Inr _ \<Rightarrow>
          Inr \<lparr>model = OPENAI_MODEL W,
               system_prompt = system_prompt_text W,
               few_shot_examples = few_shot_example_texts W,
               cot_profile_extraction = cot_profile_extraction_text W,
               cot_meal_planning = cot_meal_planning_text W,
               cot_nutrition_calculation = cot_nutrition_calculation_text W\<rparr>)"

definition apology :: string where
  "apology = ''I apologize, but I'' @ [CHR 0x27] @ ''m experiencing technical difficulties. ''
     @ ''Please try again. Error: ''"

text \<open>
  \<open>chat\<close> (lines 95-120). The first component of the result lists the oracle calls made,
  the second is the returned text.
\<close>

definition chat_messages :: "AIDietitian \<Rightarrow> string \<Rightarrow> message list \<Rightarrow> message list" where
  "chat_messages self msg conversation_history =
     [\<lparr>role = ''system'', content = system_prompt self\<rparr>]
     @ concat (map (\<lambda>(u, a). [\<lparr>role = ''user'', content = u\<rparr>,
                               \<lparr>role = ''assistant'', content = a\<rparr>])
         (few_shot_examples self))
     @ conversation_history
     @ [\<lparr>role = ''user'', content = msg\<rparr>]"

definition chat_request :: "AIDietitian \<Rightarrow> string \<Rightarrow> message list \<Rightarrow> request" where
  "chat_request self msg conversation_history =
     \<lparr>req_model = model self,
      req_messages = chat_messages self msg conversation_history,
      max_tokens = 500, temperature = 7 / 10\<rparr>"

definition chat :: "world \<Rightarrow> AIDietitian \<Rightarrow> string \<Rightarrow> message list \<Rightarrow> effect list \<times> string" where
  "chat W self msg conversation_history =
     (let req = chat_request self msg conversation_history
      in case ChatCompletion_create W req of
           Inr reply \<Rightarrow> ([OracleCall Chat req], reply)
         | Inl e \<Rightarrow> ([OracleCall Chat req], apology @ e))"

text \<open>
  \<open>extract_user_profile\<close> (lines 122-178). The body of its \<open>try\<close>: the oracle call, the
  clean-up, \<open>json.loads\<close>, and \<open>UserProfile(**profile_data)\<close>, which raises \<open>TypeError\<close> when
  the parsed value is no \<open>dict\<close>.
\<close>

definition extract_request :: "world \<Rightarrow> AIDietitian \<Rightarrow> message list \<Rightarrow> request" where
  "extract_request W self conversation_history =
     \<lparr>req_model = model self,
      req_messages =
        [\<lparr>role = ''system'',
          content = ''You are a data extraction specialist. Extract user information and return ONLY valid JSON.''\<rparr>,
         \<lparr>role = ''user'',
          content = extraction_prompt W (cot_profile_extraction self) conversation_history\<rparr>],
      max_tokens = 1000, temperature = 1 / 10\<rparr>"

definition extract_user_profile_try :: "world \<Rightarrow> request \<Rightarrow> error + UserProfile" where
  "extract_user_profile_try W req =
     (case ChatCompletion_create W req of
        Inl e \<Rightarrow> Inl (OracleError e)
      | Inr reply \<Rightarrow>
          (case json_loads W (sanitize reply) of
             Inl e \<Rightarrow> Inl (JSONDecodeError e)
           | Inr profile_data \<Rightarrow>
               (case profile_data of
                  JObject kvs \<Rightarrow>
                    (case UserProfile_init (pydantic_lib W) kvs of
                       None \<Rightarrow> Inl ValidationError
                     | Some profile \<Rightarrow> Inr profile)
                | _ \<Rightarrow> Inl TypeError)))"

text \<open>
  The \<open>except Exception\<close> clause prints the exception and returns \<open>None\<close>; the function's
  return type is \<open>Optional[UserProfile]\<close>.
\<close>

definition extract_user_profile ::
  "world \<Rightarrow> AIDietitian \<Rightarrow> message list \<Rightarrow> effect list \<times> UserProfile option" where
  "extract_user_profile W self conversation_history =
     (let req = extract_request W self conversation_history
      in case extract_user_profile_try W req of
           Inr profile \<Rightarrow> ([OracleCall ProfileExtraction req], Some profile)
         | Inl e \<Rightarrow> ([OracleCall ProfileExtraction req, PrintProfileError e], None))"

text \<open>\<open>create_diet_plan\<close> (lines 180-248), built the same way around \<open>WeeklyDietPlan\<close>.\<close>

definition plan_request :: "world \<Rightarrow> AIDietitian \<Rightarrow> UserProfile \<Rightarrow> request" where
  "plan_request W self profile =
     \<lparr>req_model = model self,
      req_messages =
        [\<lparr>role = ''system'',
          content = ''You are a nutrition expert. Create personalized diet plans and return ONLY valid JSON.''\<rparr>,
         \<lparr>role = ''user'', content = plan_prompt W (cot_meal_planning self) profile\<rparr>],
      max_tokens = 2000, temperature = 3 / 10\<rparr>"

definition create_diet_plan_try :: "world \<Rightarrow> request \<Rightarrow> error + WeeklyDietPlan" where
  "create_diet_plan_try W req =
     (case ChatCompletion_create W req of
        Inl e \<Rightarrow> Inl (OracleError e)
      | Inr reply \<Rightarrow>
          (case json_loads W (sanitize reply) of
             Inl e \<Rightarrow> Inl (JSONDecodeError e)
           | Inr plan_data \<Rightarrow>
               (case plan_data of
                  JObject kvs \<Rightarrow>
                    (case WeeklyDietPlan_init (pydantic_lib W) kvs of
                       None \<Rightarrow> Inl ValidationError
                     | Some plan \<Rightarrow> Inr plan)
                | _ \<Rightarrow> Inl TypeError)))"

definition create_diet_plan ::
  "world \<Rightarrow> AIDietitian \<Rightarrow> UserProfile \<Rightarrow> effect list \<times> WeeklyDietPlan option" where
  "create_diet_plan W self profile =
     (let req = plan_request W self profile
      in case create_diet_plan_try W req of
           Inr plan \<Rightarrow> ([OracleCall PlanGeneration req], Some plan)
         | Inl e \<Rightarrow> ([OracleCall PlanGeneration req, PrintPlanError e], None))"

section \<open>The session and the page (app.py)\<close>

text \<open>
  \<open>st.session_state\<close> holds four entries; \<open>initialize_session_state\<close> gives a new session
  the values of \<open>initial_session\<close> and leaves an existing one alone. The field names carry
  the prefix \<open>ss\<close> (\<open>user_profile\<close> is a field of \<open>WeeklyDietPlan\<close> already).
\<close>

record session =
  ss_messages :: "message list"
  ss_user_profile :: "UserProfile option"
  ss_diet_plan :: "WeeklyDietPlan option"
  ss_conversation_complete :: bool

definition initial_session :: session where
  "initial_session =
     \<lparr>ss_messages = [], ss_user_profile = None, ss_diet_plan = None,
      ss_conversation_complete = False\<rparr>"

text \<open>
  Streamlit runs the script once per interaction. In that run the widget the user acted
  on returns its value (the text of the chat input, \<open>True\<close> for the button clicked) and
  every other widget returns nothing. A button that is disabled or not drawn cannot be
  clicked: it returns \<open>False\<close>. \<open>st.rerun()\<close> ends the run (its exception is no
  \<open>Exception\<close>), and the run that follows has no interaction.
\<close>

datatype event =
    NoEvent
  | ChatInput string
  | ClickExtract
  | ClickGenerate
  | ClickComplete
  | ClickGeneratePDF
  | ClickStartNew
  | ClickStartOver

text \<open>The chat input (lines 216-240).\<close>

definition chat_submitted :: "world \<Rightarrow> string \<Rightarrow> session \<Rightarrow> session \<times> effect list" where
  "chat_submitted W prompt s =
     (let s1 = s\<lparr>ss_messages := ss_messages s @ [\<lparr>role = ''user'', content = prompt\<rparr>]\<rparr>
      in case AIDietitian_init W of
           Inl e \<Rightarrow> (s1, [Shown (SorryError e)])
         | Inr ai_dietitian \<Rightarrow>
             (let (fx, response) = chat W ai_dietitian prompt (ss_messages s1);
                  s2 = s1\<lparr>ss_messages :=
                          ss_messages s1 @ [\<lparr>role = ''assistant'', content = response\<rparr>]\<rparr>
              in if length (ss_messages s2) \<ge> 6 \<and> ss_user_profile s2 = None
                 then (case extract_user_profile W ai_dietitian (ss_messages s2) of
                         (fx2, Some profile) \<Rightarrow>
                           (s2\<lparr>ss_user_profile := Some profile\<rparr>,
                            fx @ fx2 @ [Shown ProfileExtracted])
                       | (fx2, None) \<Rightarrow> (s2, fx @ fx2))
                 else (s2, fx)))"

text \<open>The button "Extract Profile" (lines 246-258), when it can be clicked.\<close>

definition extract_clicked :: "world \<Rightarrow> session \<Rightarrow> session \<times> effect list" where
  "extract_clicked W s =
     (case AIDietitian_init W of
        Inl e \<Rightarrow> (s, [Shown (ErrorNotice e)])
      | Inr ai_dietitian \<Rightarrow>
          (case extract_user_profile W ai_dietitian (ss_messages s) of
             (fx, Some profile) \<Rightarrow>
               (s\<lparr>ss_user_profile := Some profile\<rparr>, fx @ [Shown ProfileExtracted])
           | (fx, None) \<Rightarrow> (s, fx @ [Shown CouldNotExtractProfile])))"

text \<open>The button "Generate Diet Plan" (lines 261-273), when it can be clicked.\<close>

definition generate_clicked :: "world \<Rightarrow> UserProfile \<Rightarrow> session \<Rightarrow> session \<times> effect list" where
  "generate_clicked W profile s =
     (case AIDietitian_init W of
        Inl e \<Rightarrow> (s, [Shown (ErrorNotice e)])
      | Inr ai_dietitian \<Rightarrow>
          (case create_diet_plan W ai_dietitian profile of
             (fx, Some plan) \<Rightarrow> (s\<lparr>ss_diet_plan := Some plan\<rparr>, fx @ [Shown PlanGenerated])
           | (fx, None) \<Rightarrow> (s, fx @ [Shown CouldNotGeneratePlan])))"

text \<open>The button "Generate PDF" (lines 291-313); the session is not written.\<close>

definition pdf_clicked :: "world \<Rightarrow> WeeklyDietPlan \<Rightarrow> session \<Rightarrow> session \<times> effect list" where
  "pdf_clicked W plan s =
     (case generate_diet_plan_pdf W plan of
        Inl e \<Rightarrow> (s, [Shown (PdfError e)])
      | Inr pdf_path \<Rightarrow> (s, [Shown (PdfDownload pdf_path)]))"

text \<open>
  \<open>main\<close> (lines 154-330) for one run. The three buttons of the chat view are disabled
  by \<open>not st.session_state.messages\<close>, \<open>not st.session_state.user_profile\<close> and
  \<open>not st.session_state.diet_plan\<close>; a model instance is always true, a list is true
  when it is not empty, and the walrus test on the chat input refuses the empty text.
\<close>

definition main :: "world \<Rightarrow> event \<Rightarrow> session \<Rightarrow> session \<times> effect list" where
  "main W ev s =
     (if \<not> ss_conversation_complete s then
        (case ev of
           ChatInput prompt \<Rightarrow> (if prompt = [] then (s, []) else chat_submitted W prompt s)
         | ClickExtract \<Rightarrow> (if ss_messages s = [] then (s, []) else extract_clicked W s)
         | ClickGenerate \<Rightarrow>
             (case ss_user_profile s of
                None \<Rightarrow> (s, [])
              | Some profile \<Rightarrow> generate_clicked W profile s)
         | ClickComplete \<Rightarrow>
             (case ss_diet_plan s of
                None \<Rightarrow> (s, [])
              | Some _ \<Rightarrow> (s\<lparr>ss_conversation_complete := True\<rparr>, []))
         | _ \<Rightarrow> (s, []))
      else
        (case (ss_user_profile s, ss_diet_plan s) of
           (Some _, Some plan) \<Rightarrow>
             (case ev of
                ClickGeneratePDF \<Rightarrow> pdf_clicked W plan s
              | ClickStartNew \<Rightarrow> (initial_session, [])
              | _ \<Rightarrow> (s, []))
         | _ \<Rightarrow>
             (case ev of
                ClickStartOver \<Rightarrow> (initial_session, [Shown MissingProfileOrPlan])
              | _ \<Rightarrow> (s, [Shown MissingProfileOrPlan]))))"

section \<open>Example inputs\<close>

text \<open>
  Two instances of the library parameter. Neither coerces a value of another JSON type;
  \<open>strict_library\<close> requires its \<open>Optional\<close> fields to be present, \<open>lenient_library\<close> lets
  them be left out.
\<close>

definition strict_library :: pydantic where
  "strict_library =
     \<lparr>lax_str = (\<lambda>_. None), lax_int = (\<lambda>_. None), lax_float = (\<lambda>_. None),
      lax_dict = (\<lambda>_. None), optional_default = False\<rparr>"

definition lenient_library :: pydantic where
  "lenient_library =
     \<lparr>lax_str = (\<lambda>_. None), lax_int = (\<lambda>_. None), lax_float = (\<lambda>_. None),
      lax_dict = (\<lambda>_. None), optional_default = True\<rparr>"

text \<open>
  The profile of \<open>test_models\<close> in demo.py as parsed JSON, with its four numbers left
  open, and the model it validates to. \<open>del d[k]\<close> removes a key.
\<close>

definition profile_data :: "int \<Rightarrow> real \<Rightarrow> real \<Rightarrow> real \<Rightarrow> (string \<times> json) list" where
  "profile_data a h w tw =
     [(''name'', JString ''Test User''),
      (''age'', JInt a),
      (''gender'', JString ''female''),
      (''height_cm'', JFloat h),
      (''weight_kg'', JFloat w),
      (''target_weight_kg'', JFloat tw),
      (''activity_level'', JString ''moderately_active''),
      (''goal'', JString ''weight_loss''),
      (''dietary_restrictions'', JArray [JString ''none'']),
      (''allergies'', JArray []),
      (''preferences'', JArray [JString ''Mediterranean'', JString ''vegetables'']),
      (''dislikes'', JArray [JString ''spicy food'']),
      (''daily_routine'',
         JObject [(''wake_up'', JString ''7:00 AM''), (''bedtime'', JString ''10:00 PM'')]),
      (''cooking_skill'', JString ''intermediate''),
      (''budget_constraint'', JNull),
      (''cultural_preferences'', JArray [JString ''Mediterranean''])]"

definition profile_of :: "int \<Rightarrow> real \<Rightarrow> real \<Rightarrow> real option \<Rightarrow> UserProfile" where
  "profile_of a h w tw =
     \<lparr>name = ''Test User'', age = a, gender = ''female'', height_cm = h, weight_kg = w,
      target_weight_kg = tw, activity_level = MODERATELY_ACTIVE, goal = WEIGHT_LOSS,
      dietary_restrictions = [NONE], allergies = [],
      preferences = [''Mediterranean'', ''vegetables''], dislikes = [''spicy food''],
      daily_routine = [(''wake_up'', ''7:00 AM''), (''bedtime'', ''10:00 PM'')],
      cooking_skill = ''intermediate'', budget_constraint = None,
      cultural_preferences = [''Mediterranean'']\<rparr>"

definition demo_profile_data :: "(string \<times> json) list" where
  "demo_profile_data = profile_data 30 165 70 65"

definition demo_profile :: UserProfile where
  "demo_profile = profile_of 30 165 70 (Some 65)"

definition dict_del :: "string \<Rightarrow> (string \<times> json) list \<Rightarrow> (string \<times> json) list" where
  "dict_del k d = filter (\<lambda>(k', v). k' \<noteq> k) d"

text \<open>
  A meal, a day and a week in the shape the plan prompt asks for, and the models they
  validate to. \<open>meal_calories\<close> is the \<open>meal.nutrition_info.get('calories')\<close> of app.py
  (line 136).
\<close>

definition meal_data :: "MealTime \<Rightarrow> int \<Rightarrow> (string \<times> json) list" where
  "meal_data t calories =
     [(''meal_time'', JString (MealTime_value t)),
      (''meal_name'', JString ''Meal''),
      (''description'', JString ''A meal''),
      (''ingredients'', JArray [JString ''oats'']),
      (''instructions'', JArray [JString ''Cook'']),
      (''nutrition_info'', JObject [(''calories'', JInt calories), (''protein'', JFloat 20),
         (''carbs'', JFloat 40), (''fat'', JFloat 10)]),
      (''prep_time'', JString ''10 minutes''),
      (''cooking_time'', JString ''15 minutes''),
      (''difficulty'', JString ''easy'')]"

definition meal_of :: "MealTime \<Rightarrow> int \<Rightarrow> MealPlan" where
  "meal_of t calories =
     \<lparr>meal_time = t, meal_name = ''Meal'', description = ''A meal'', ingredients = [''oats''],
      instructions = [''Cook''],
      nutrition_info = [(''calories'', JInt calories), (''protein'', JFloat 20),
         (''carbs'', JFloat 40), (''fat'', JFloat 10)],
      prep_time = ''10 minutes'', cooking_time = ''15 minutes'', difficulty = ''easy''\<rparr>"

definition meal_calories :: "MealPlan \<Rightarrow> json option" where
  "meal_calories m = map_of (nutrition_info m) ''calories''"

definition day_data ::
  "string \<times> (MealTime \<times> int) list \<times> int \<times> real \<Rightarrow> (string \<times> json) list" where
  "day_data q =
     (case q of (label, ms, kcal, protein) \<Rightarrow>
        [(''day'', JString label),
         (''meals'', JArray (map (\<lambda>(t, c). JObject (meal_data t c)) ms)),
         (''total_calories'', JInt kcal),
         (''total_protein'', JFloat protein),
         (''total_carbs'', JFloat 120),
         (''total_fat'', JFloat 30),
         (''notes'', JNull)])"

definition day_of :: "string \<times> (MealTime \<times> int) list \<times> int \<times> real \<Rightarrow> DailyPlan" where
  "day_of q =
     (case q of (label, ms, kcal, protein) \<Rightarrow>
        \<lparr>day = label, meals = map (\<lambda>(t, c). meal_of t c) ms, total_calories = kcal,
         total_protein = protein, total_carbs = 120, total_fat = 30, day_notes = None\<rparr>)"

definition week_data ::
  "(string \<times> (MealTime \<times> int) list \<times> int \<times> real) list \<Rightarrow> (string \<times> json) list
     \<Rightarrow> (string \<times> json) list" where
  "week_data qs summary =
     [(''user_profile'', JObject demo_profile_data),
      (''daily_plans'', JArray (map (\<lambda>q. JObject (day_data q)) qs)),
      (''weekly_summary'', JObject summary),
      (''recommendations'', JArray [JString ''Drink water'']),
      (''shopping_list'', JArray [JString ''oats'']),
      (''created_date'', JString ''2024-01-01'')]"

definition week_of ::
  "(string \<times> (MealTime \<times> int) list \<times> int \<times> real) list \<Rightarrow> (string \<times> json) list
     \<Rightarrow> WeeklyDietPlan" where
  "week_of qs summary =
     \<lparr>user_profile = demo_profile, daily_plans = map day_of qs, weekly_summary = summary,
      recommendations = [''Drink water''], shopping_list = [''oats''],
      created_date = ''2024-01-01''\<rparr>"

text \<open>
  Three weeks. In the first, every day has meals of 300, 500 and 700 calories; Monday's
  total is given as 1600, the other days' as 1500. The second has the daily totals of the
  specification's example (they add up to 10600, and each day has 20 g of protein) under
  a summary that says 10500 and 25. The third has no day at all.
\<close>

definition three_meals :: "(MealTime \<times> int) list" where
  "three_meals = [(BREAKFAST, 300), (LUNCH, 500), (DINNER, 700)]"

definition overstated_days :: "(string \<times> (MealTime \<times> int) list \<times> int \<times> real) list" where
  "overstated_days =
     [(''Monday'', three_meals, 1600, 60), (''Tuesday'', three_meals, 1500, 60),
      (''Wednesday'', three_meals, 1500, 60), (''Thursday'', three_meals, 1500, 60),
      (''Friday'', three_meals, 1500, 60), (''Saturday'', three_meals, 1500, 60),
      (''Sunday'', three_meals, 1500, 60)]"

definition overstated_summary :: "(string \<times> json) list" where
  "overstated_summary =
     [(''total_calories'', JInt 10600), (''avg_protein'', JFloat 60),
      (''avg_carbs'', JFloat 120), (''avg_fat'', JFloat 30)]"

definition overstated_week_data :: "(string \<times> json) list" where
  "overstated_week_data = week_data overstated_days overstated_summary"

definition overstated_week :: WeeklyDietPlan where
  "overstated_week = week_of overstated_days overstated_summary"

definition spec_days :: "(string \<times> (MealTime \<times> int) list \<times> int \<times> real) list" where
  "spec_days =
     [(''Monday'', [(LUNCH, 1500)], 1500, 20), (''Tuesday'', [(LUNCH, 1600)], 1600, 20),
      (''Wednesday'', [(LUNCH, 1500)], 1500, 20), (''Thursday'', [(LUNCH, 1500)], 1500, 20),
      (''Friday'', [(LUNCH, 1400)], 1400, 20), (''Saturday'', [(LUNCH, 1600)], 1600, 20),
      (''Sunday'', [(LUNCH, 1500)], 1500, 20)]"

definition wrong_summary :: "(string \<times> json) list" where
  "wrong_summary =
     [(''total_calories'', JInt 10500), (''avg_protein'', JFloat 25),
      (''avg_carbs'', JFloat 100), (''avg_fat'', JFloat 35)]"

definition spec_week_data :: "(string \<times> json) list" where
  "spec_week_data = week_data spec_days wrong_summary"

definition spec_week :: WeeklyDietPlan where
  "spec_week = week_of spec_days wrong_summary"

definition empty_week_data :: "(string \<times> json) list" where
  "empty_week_data = week_data [] []"

definition empty_week :: WeeklyDietPlan where
  "empty_week = week_of [] []"

text \<open>
  Worlds with a key and the strict library. In \<open>failing_world e\<close> every oracle call raises
  an exception whose text is \<open>e\<close>. In \<open>replying_world data\<close> the oracle answers and
  \<open>json.loads\<close> reads the cleaned answer as the object \<open>data\<close>; the answer's text is of no
  interest and stands as \<open>reply_text\<close>.
\<close>

definition demo_world :: "(request \<Rightarrow> string + string) \<Rightarrow> (string \<Rightarrow> string + json) \<Rightarrow> world" where
  "demo_world oracle loads =
     \<lparr>OPENAI_API_KEY = Some ''sk-demo'', OPENAI_MODEL = ''gpt-4'',
      system_prompt_text = ''You are Dr. Sarah Chen'',
      few_shot_example_texts = [(''Hi, I want to lose weight'', ''Hello!'')],
      cot_profile_extraction_text = ''Let me think through this step by step'',
      cot_meal_planning_text = ''Now let me think through creating a personalized meal plan'',
      cot_nutrition_calculation_text = ''Let me calculate the nutritional requirements'',
      extraction_prompt = (\<lambda>cot history. cot),
      plan_prompt = (\<lambda>cot profile. cot),
      ChatCompletion_create = oracle,
      json_loads = loads,
      pydantic_lib = strict_library,
      generate_diet_plan_pdf = (\<lambda>plan. Inr ''diet_plan.pdf'')\<rparr>"

definition reply_text :: string where
  "reply_text = ''(the reply)''"

definition failing_world :: "string \<Rightarrow> world" where
  "failing_world e = demo_world (\<lambda>req. Inl e) (\<lambda>s. Inl ''Expecting value'')"

definition replying_world :: "(string \<times> json) list \<Rightarrow> world" where
  "replying_world data =
     demo_world (\<lambda>req. Inr reply_text)
       (\<lambda>s. if s = reply_text then Inr (JObject data) else Inl ''Expecting value'')"

text \<open>
  In \<open>garbled_world\<close> the oracle answers with a text that is no JSON, and \<open>json.loads\<close>
  raises on it.
\<close>

definition garbled_world :: world where
  "garbled_world =
     demo_world (\<lambda>req. Inr ''not json'')
       (\<lambda>s. Inl ''Expecting value: line 1 column 1 (char 0)'')"

definition demo_dietitian :: AIDietitian where
  "demo_dietitian =
     \<lparr>model = ''gpt-4'', system_prompt = ''You are Dr. Sarah Chen'',
      few_shot_examples = [(''Hi, I want to lose weight'', ''Hello!'')],
      cot_profile_extraction = ''Let me think through this step by step'',
      cot_meal_planning = ''Now let me think through creating a personalized meal plan'',
      cot_nutrition_calculation = ''Let me calculate the nutritional requirements''\<rparr>"

text \<open>Sessions: one that has only chatted, and one that holds a profile and a plan.\<close>

definition demo_history :: "message list" where
  "demo_history =
     [\<lparr>role = ''user'', content = ''Hi, I want to lose weight''\<rparr>,
      \<lparr>role = ''assistant'', content = ''Hello!''\<rparr>]"

definition chatting_session :: session where
  "chatting_session = initial_session\<lparr>ss_messages := demo_history\<rparr>"

definition stored_session :: session where
  "stored_session =
     \<lparr>ss_messages = demo_history, ss_user_profile = Some demo_profile,
      ss_diet_plan = Some overstated_week, ss_conversation_complete = False\<rparr>"

section \<open>Properties of the clean-up\<close>

lemma backquote_not_space: "\<not> is_space (CHR 0x60)"
  by (simp add: is_space_def)

lemma length_fence: "length fence = 3"
  by (simp add: fence_def)

lemma length_json_fence: "length json_fence = 7"
  by (simp add: json_fence_def fence_def)

lemma lstrip_spaces_append:
  assumes "list_all is_space l" and "\<not> is_space x"
  shows "lstrip (l @ x # xs) = x # xs"
proof -
  have "dropWhile is_space (l @ x # xs) = dropWhile is_space (x # xs)"
    using assms(1) by (intro dropWhile_append2) (simp add: list_all_iff)
  with assms(2) show ?thesis by (simp add: lstrip_def)
qed

lemma rstrip_append_spaces:
  assumes "list_all is_space r" and "\<not> is_space x"
  shows "rstrip (xs @ x # r) = xs @ [x]"
proof -
  have "rev (xs @ x # r) = rev r @ x # rev xs" by simp
  moreover have "list_all is_space (rev r)"
    using assms(1) by (simp add: list_all_iff)
  ultimately have "lstrip (rev (xs @ x # r)) = x # rev xs"
    using lstrip_spaces_append [OF _ assms(2)] by simp
  then show ?thesis by (simp add: rstrip_def lstrip_def)
qed

lemma strip_fenced:
  assumes "list_all is_space l" and "list_all is_space r"
  shows "strip (l @ json_fence @ T @ fence @ r) = json_fence @ T @ fence"
proof -
  let ?q = "CHR 0x60"
  have open_eq: "json_fence @ T @ fence @ r = ?q # ([?q, ?q] @ ''json'' @ T @ fence @ r)"
    by (simp add: json_fence_def fence_def)
  have "lstrip (l @ json_fence @ T @ fence @ r) = json_fence @ T @ fence @ r"
    unfolding open_eq using lstrip_spaces_append [OF assms(1) backquote_not_space] by simp
  moreover have "json_fence @ T @ fence @ r = (json_fence @ T @ [?q, ?q]) @ ?q # r"
    by (simp add: fence_def)
  moreover have "rstrip ((json_fence @ T @ [?q, ?q]) @ ?q # r) = (json_fence @ T @ [?q, ?q]) @ [?q]"
    by (rule rstrip_append_spaces [OF assms(2) backquote_not_space])
  ultimately show ?thesis by (simp add: strip_def fence_def)
qed

lemma sanitize_fenced:
  assumes "list_all is_space l" and "list_all is_space r"
  shows "sanitize (l @ json_fence @ T @ fence @ r) = T"
proof -
  have s: "strip (l @ json_fence @ T @ fence @ r) = json_fence @ T @ fence"
    by (rule strip_fenced [OF assms])
  have a: "startswith (json_fence @ T @ fence) json_fence"
    by (simp add: startswith_def)
  have b: "drop 7 (json_fence @ T @ fence) = T @ fence"
    by (simp add: length_json_fence)
  have c: "endswith (T @ fence) fence"
    by (simp add: endswith_def)
  have d: "take (length (T @ fence) - 3) (T @ fence) = T"
    by (simp add: length_fence)
  show ?thesis
    unfolding sanitize_def s Let_def using a b c d by simp
qed

lemma sanitize_clean:
  assumes "strip U = U" and "\<not> startswith U json_fence" and "\<not> endswith U fence"
  shows "sanitize U = U"
  using assms by (simp add: sanitize_def)

text \<open>
  Claim C3, as stated, fails on the code. The whitespace is stripped before the markers are
  removed and not after. On the ordinary fenced reply \<open>```json\<newline>{}\<newline>```\<close> one pass leaves
  the untrimmed \<open>\<newline>{}\<newline>\<close> and a second pass trims it to \<open>{}\<close>: the clean-up is not
  idempotent, and its result is not the trimmed payload.
\<close>

theorem C3_sanitize_counterexample:
  "sanitize (json_fence @ [CHR 0x0A] @ ''{}'' @ [CHR 0x0A] @ fence) = [CHR 0x0A] @ ''{}'' @ [CHR 0x0A]
   \<and> sanitize (sanitize (json_fence @ [CHR 0x0A] @ ''{}'' @ [CHR 0x0A] @ fence)) = ''{}''
   \<and> sanitize (sanitize (json_fence @ [CHR 0x0A] @ ''{}'' @ [CHR 0x0A] @ fence))
       \<noteq> sanitize (json_fence @ [CHR 0x0A] @ ''{}'' @ [CHR 0x0A] @ fence)
   \<and> strip ([CHR 0x0A] @ ''{}'' @ [CHR 0x0A]) = ''{}''
   \<and> sanitize (json_fence @ [CHR 0x0A] @ ''{}'' @ [CHR 0x0A] @ fence)
       \<noteq> strip ([CHR 0x0A] @ ''{}'' @ [CHR 0x0A])"
  by (simp add: sanitize_def strip_def lstrip_def rstrip_def startswith_def endswith_def
      fence_def json_fence_def is_space_def)

text \<open>
  Claim C3, amended. For every text \<open>T\<close> and all whitespace-only \<open>l\<close> and \<open>r\<close>, the
  clean-up of \<open>l\<close>, the opener \<open>```json\<close>, \<open>T\<close>, the closer \<open>```\<close> and \<open>r\<close> is exactly \<open>T\<close>
  (untrimmed, so its trimmed form is the trimmed \<open>T\<close>); and a second pass changes nothing
  whenever the first pass's result is already trimmed and carries neither a further
  \<open>```json\<close> opener nor a further \<open>```\<close> closer.
\<close>

theorem C3_sanitize_amended:
  "(list_all is_space l \<and> list_all is_space r \<longrightarrow>
      sanitize (l @ json_fence @ T @ fence @ r) = T
      \<and> strip (sanitize (l @ json_fence @ T @ fence @ r)) = strip T)
   \<and> (strip (sanitize U) = sanitize U \<and> \<not> startswith (sanitize U) json_fence
        \<and> \<not> endswith (sanitize U) fence \<longrightarrow>
      sanitize (sanitize U) = sanitize U)"
  using sanitize_fenced [of l r T] sanitize_clean [of "sanitize U"] by simp

theorem C3_sanitize_amended_witness:
  "sanitize ('' '' @ json_fence @ ([CHR 0x0A] @ ''{}'' @ [CHR 0x0A]) @ fence @ [CHR 0x0A])
     = [CHR 0x0A] @ ''{}'' @ [CHR 0x0A]
   \<and> strip (sanitize ('' '' @ json_fence @ ([CHR 0x0A] @ ''{}'' @ [CHR 0x0A]) @ fence @ [CHR 0x0A]))
     = ''{}''
   \<and> sanitize (json_fence @ ''{}'' @ fence) = ''{}''
   \<and> sanitize (sanitize (json_fence @ ''{}'' @ fence)) = sanitize (json_fence @ ''{}'' @ fence)"
proof -
  have sp: "list_all is_space '' ''" "list_all is_space [CHR 0x0A]"
    by (simp_all add: is_space_def)
  have tr: "strip ([CHR 0x0A] @ ''{}'' @ [CHR 0x0A]) = ''{}''"
    by (simp add: strip_def lstrip_def rstrip_def is_space_def)
  have one: "sanitize (json_fence @ ''{}'' @ fence) = ''{}''"
    by (simp add: sanitize_def strip_def lstrip_def rstrip_def startswith_def endswith_def
        fence_def json_fence_def is_space_def)
  have clean: "strip ''{}'' = ''{}''" "\<not> startswith ''{}'' json_fence" "\<not> endswith ''{}'' fence"
    by (simp_all add: strip_def lstrip_def rstrip_def startswith_def endswith_def
        fence_def json_fence_def is_space_def)
  show ?thesis
    using C3_sanitize_amended [of "'' ''" "[CHR 0x0A]" "[CHR 0x0A] @ ''{}'' @ [CHR 0x0A]"
        "json_fence @ ''{}'' @ fence"] sp tr one clean
    by simp
qed

section \<open>Validation: general facts\<close>

lemma those_map_Some:
  "those (map f xs) = Some ys \<longleftrightarrow> list_all2 (\<lambda>x y. f x = Some y) xs ys"
proof (induction xs arbitrary: ys)
  case Nil
  show ?case by auto
next
  case (Cons x xs)
  show ?case
  proof (cases "f x")
    case None
    then show ?thesis by (simp add: list_all2_Cons1)
  next
    case (Some y)
    then show ?thesis
      using Cons.IH by (auto simp: list_all2_Cons1 split: option.splits)
  qed
qed

lemma required_Some_iff:
  "required data k f = Some y \<longleftrightarrow> (\<exists>v. map_of data k = Some v \<and> f v = Some y)"
  by (simp add: required_def split: option.splits)

lemma list_validator_Some_iff:
  "list_validator f v = Some ys \<longleftrightarrow>
     (\<exists>xs. v = JArray xs \<and> list_all2 (\<lambda>x y. f x = Some y) xs ys)"
  by (cases v) (simp_all add: list_validator_def those_map_Some)

lemma optional_None_iff:
  "optional L data k f = Some None \<longleftrightarrow>
     (map_of data k = None \<and> optional_default L) \<or> map_of data k = Some JNull"
  by (auto simp: optional_def split: option.splits json.splits)





lemma MealTime_validator_value: "MealTime_validator (JString (MealTime_value t)) = Some t"
  by (cases t) (simp_all add: MealTime_validator_def MealTime_members_def)





lemma UserProfile_init_SomeD:
  assumes "UserProfile_init L data = Some p"
  shows "required data ''age'' (int_validator L) = Some (age p)"
    and "required data ''height_cm'' (float_validator L) = Some (height_cm p)"
    and "required data ''weight_kg'' (float_validator L) = Some (weight_kg p)"
    and "optional L data ''target_weight_kg'' (float_validator L) = Some (target_weight_kg p)"
    and "required data ''activity_level'' ActivityLevel_validator = Some (activity_level p)"
    and "required data ''goal'' Goal_validator = Some (goal p)"
    and "required data ''dietary_restrictions'' (list_validator DietaryRestriction_validator)
          = Some (dietary_restrictions p)"
    and "required data ''allergies'' (list_validator (str_validator L)) = Some (allergies p)"
    and "required data ''preferences'' (list_validator (str_validator L)) = Some (preferences p)"
    and "required data ''dislikes'' (list_validator (str_validator L)) = Some (dislikes p)"
    and "optional L data ''budget_constraint'' (str_validator L) = Some (budget_constraint p)"
    and "required data ''cultural_preferences'' (list_validator (str_validator L))
          = Some (cultural_preferences p)"
  using assms unfolding UserProfile_init_def by (auto simp: bind_eq_Some_conv)

lemma UserProfile_init_absent:
  assumes "k \<in> set [''dietary_restrictions'', ''allergies'', ''preferences'', ''dislikes'',
      ''cultural_preferences'']"
    and "map_of data k = None"
  shows "UserProfile_init L data = None"
proof (cases "UserProfile_init L data")
  case None
  then show ?thesis .
next
  case (Some p)
  note d = UserProfile_init_SomeD [OF Some]
  from assms(1) have False
    using d(7,8,9,10,12) assms(2) by (auto simp: required_Some_iff)
  then show ?thesis ..
qed

lemma WeeklyDietPlan_init_SomeD:
  assumes "WeeklyDietPlan_init L data = Some p"
  shows "required data ''user_profile'' (UserProfile_validator L) = Some (user_profile p)"
    and "required data ''daily_plans'' (list_validator (DailyPlan_validator L))
          = Some (daily_plans p)"
    and "required data ''weekly_summary'' (dict_validator L) = Some (weekly_summary p)"
  using assms unfolding WeeklyDietPlan_init_def by (auto simp: bind_eq_Some_conv)

lemma DailyPlan_validator_SomeD:
  assumes "DailyPlan_validator L j = Some d"
  shows "\<exists>dd. dict_validator L j = Some dd
      \<and> required dd ''meals'' (list_validator (MealPlan_validator L)) = Some (meals d)
      \<and> required dd ''total_calories'' (int_validator L) = Some (total_calories d)
      \<and> required dd ''total_protein'' (float_validator L) = Some (total_protein d)
      \<and> required dd ''total_carbs'' (float_validator L) = Some (total_carbs d)
      \<and> required dd ''total_fat'' (float_validator L) = Some (total_fat d)"
  using assms unfolding DailyPlan_validator_def DailyPlan_init_def
  by (auto simp: bind_eq_Some_conv)

section \<open>The pipeline around the validation\<close>

lemma create_diet_plan_Some_iff:
  "snd (create_diet_plan W self profile) = Some plan \<longleftrightarrow>
     (\<exists>reply data. ChatCompletion_create W (plan_request W self profile) = Inr reply
        \<and> json_loads W (sanitize reply) = Inr (JObject data)
        \<and> WeeklyDietPlan_init (pydantic_lib W) data = Some plan)"
  by (auto simp: create_diet_plan_def create_diet_plan_try_def Let_def
      split: sum.splits json.splits option.splits)

lemma extract_user_profile_Some_iff:
  "snd (extract_user_profile W self h) = Some p \<longleftrightarrow>
     (\<exists>reply data. ChatCompletion_create W (extract_request W self h) = Inr reply
        \<and> json_loads W (sanitize reply) = Inr (JObject data)
        \<and> UserProfile_init (pydantic_lib W) data = Some p)"
  by (auto simp: extract_user_profile_def extract_user_profile_try_def Let_def
      split: sum.splits json.splits option.splits)

section \<open>The example inputs validate\<close>

lemma profile_accepted:
  "UserProfile_init L (profile_data a h w tw) = Some (profile_of a h w (Some tw))"
  by (simp add: UserProfile_init_def profile_data_def profile_of_def
      required_def optional_def str_validator_def int_validator_def float_validator_def
      dict_validator_def list_validator_def str_dict_validator_def
      ActivityLevel_validator_def Goal_validator_def DietaryRestriction_validator_def
      ActivityLevel_members_def Goal_members_def DietaryRestriction_members_def)

lemma profile_without_target_accepted:
  "optional_default L \<Longrightarrow>
   UserProfile_init L (dict_del ''target_weight_kg'' (profile_data a h w tw))
     = Some (profile_of a h w None)"
  by (simp add: UserProfile_init_def profile_data_def profile_of_def dict_del_def
      required_def optional_def str_validator_def int_validator_def float_validator_def
      dict_validator_def list_validator_def str_dict_validator_def
      ActivityLevel_validator_def Goal_validator_def DietaryRestriction_validator_def
      ActivityLevel_members_def Goal_members_def DietaryRestriction_members_def)

lemma meal_accepted: "MealPlan_validator L (JObject (meal_data t c)) = Some (meal_of t c)"
  by (simp add: MealPlan_validator_def MealPlan_init_def meal_data_def meal_of_def
      required_def str_validator_def dict_validator_def list_validator_def
      MealTime_validator_value)

lemma meals_accepted:
  "list_validator (MealPlan_validator L) (JArray (map (\<lambda>(t, c). JObject (meal_data t c)) ms))
     = Some (map (\<lambda>(t, c). meal_of t c) ms)"
proof -
  have "those (map (MealPlan_validator L) (map (\<lambda>(t, c). JObject (meal_data t c)) ms))
      = Some (map (\<lambda>(t, c). meal_of t c) ms)"
    by (induction ms) (auto simp: meal_accepted)
  then show ?thesis by (simp add: list_validator_def)
qed

lemma day_accepted: "DailyPlan_validator L (JObject (day_data q)) = Some (day_of q)"
proof -
  obtain label ms kcal protein where q: "q = (label, ms, kcal, protein)"
    by (cases q) auto
  show ?thesis
    unfolding q using meals_accepted [of L ms]
    by (simp add: DailyPlan_validator_def DailyPlan_init_def day_data_def day_of_def
        required_def optional_def str_validator_def int_validator_def float_validator_def
        dict_validator_def)
qed

lemma days_accepted:
  "list_validator (DailyPlan_validator L) (JArray (map (\<lambda>q. JObject (day_data q)) qs))
     = Some (map day_of qs)"
proof -
  have "those (map (DailyPlan_validator L) (map (\<lambda>q. JObject (day_data q)) qs))
      = Some (map day_of qs)"
    by (induction qs) (auto simp: day_accepted)
  then show ?thesis by (simp add: list_validator_def)
qed

lemma week_accepted: "WeeklyDietPlan_init L (week_data qs summary) = Some (week_of qs summary)"
  using days_accepted [of L qs] profile_accepted [of L 30 165 70 65]
  by (simp add: WeeklyDietPlan_init_def week_data_def week_of_def UserProfile_validator_def
      demo_profile_data_def demo_profile_def
      required_def str_validator_def dict_validator_def list_validator_def)

lemma AIDietitian_init_demo: "AIDietitian_init (demo_world oracle loads) = Inr demo_dietitian"
  by (simp add: AIDietitian_init_def Config_validate_def demo_world_def demo_dietitian_def)

lemma sanitize_reply_text: "sanitize reply_text = reply_text"
  by (simp add: sanitize_def reply_text_def strip_def lstrip_def rstrip_def startswith_def
      endswith_def fence_def json_fence_def is_space_def)

lemma create_diet_plan_replying:
  "WeeklyDietPlan_init strict_library data = Some plan \<Longrightarrow>
   snd (create_diet_plan (replying_world data) self profile) = Some plan"
  by (simp add: create_diet_plan_Some_iff replying_world_def demo_world_def sanitize_reply_text)

section \<open>The profile: required fields, enumerations, numbers\<close>

text \<open>
  Claim C5, as stated, fails on the code: the five list-typed fields are declared with
  \<open>Field(description=...)\<close> and no default, so they are required. The demo profile with one
  of them removed is refused, also by a library that lets \<open>Optional\<close> fields be left out.
\<close>

theorem C5_absent_list_counterexample:
  "UserProfile_init lenient_library (dict_del ''dietary_restrictions'' demo_profile_data) = None
   \<and> UserProfile_init lenient_library (dict_del ''allergies'' demo_profile_data) = None
   \<and> UserProfile_init lenient_library (dict_del ''preferences'' demo_profile_data) = None
   \<and> UserProfile_init lenient_library (dict_del ''dislikes'' demo_profile_data) = None
   \<and> UserProfile_init lenient_library (dict_del ''cultural_preferences'' demo_profile_data) = None
   \<and> UserProfile_init strict_library (dict_del ''allergies'' demo_profile_data) = None"
proof -
  have absent: "map_of (dict_del ''dietary_restrictions'' demo_profile_data) ''dietary_restrictions'' = None"
    "map_of (dict_del ''allergies'' demo_profile_data) ''allergies'' = None"
    "map_of (dict_del ''preferences'' demo_profile_data) ''preferences'' = None"
    "map_of (dict_del ''dislikes'' demo_profile_data) ''dislikes'' = None"
    "map_of (dict_del ''cultural_preferences'' demo_profile_data) ''cultural_preferences'' = None"
    by (simp_all add: dict_del_def demo_profile_data_def profile_data_def)
  show ?thesis
    by (intro conjI; rule UserProfile_init_absent [rotated], rule absent, simp)
qed

text \<open>
  Claim C5, amended. A profile input in which one of the five list-typed fields is absent
  is refused. In every accepted profile each list-typed field has exactly as many elements
  as the array the input gives for it (the empty array gives the empty sequence), and
  \<open>target_weight_kg\<close> or \<open>budget_constraint\<close> is the absence marker \<open>None\<close> exactly when the
  input leaves the key out or gives \<open>null\<close> for it, never zero or the empty text.
\<close>

theorem C5_absent_fields:
  "(k \<in> set [''dietary_restrictions'', ''allergies'', ''preferences'', ''dislikes'',
        ''cultural_preferences''] \<and> map_of data k = None
      \<longrightarrow> UserProfile_init L data = None)
   \<and> (UserProfile_init L data = Some p \<longrightarrow>
        (\<exists>xs. map_of data ''dietary_restrictions'' = Some (JArray xs)
            \<and> length (dietary_restrictions p) = length xs)
      \<and> (\<exists>xs. map_of data ''allergies'' = Some (JArray xs) \<and> length (allergies p) = length xs)
      \<and> (\<exists>xs. map_of data ''preferences'' = Some (JArray xs) \<and> length (preferences p) = length xs)
      \<and> (\<exists>xs. map_of data ''dislikes'' = Some (JArray xs) \<and> length (dislikes p) = length xs)
      \<and> (\<exists>xs. map_of data ''cultural_preferences'' = Some (JArray xs)
            \<and> length (cultural_preferences p) = length xs)
      \<and> (target_weight_kg p = None) =
          (map_of data ''target_weight_kg'' = None \<or> map_of data ''target_weight_kg'' = Some JNull)
      \<and> (budget_constraint p = None) =
          (map_of data ''budget_constraint'' = None \<or> map_of data ''budget_constraint'' = Some JNull))"
proof (intro conjI impI)
  assume "k \<in> set [''dietary_restrictions'', ''allergies'', ''preferences'', ''dislikes'',
        ''cultural_preferences''] \<and> map_of data k = None"
  then show "UserProfile_init L data = None"
    using UserProfile_init_absent [of k data L] by blast
next
  assume a: "UserProfile_init L data = Some p"
  note d = UserProfile_init_SomeD [OF a]
  show "\<exists>xs. map_of data ''dietary_restrictions'' = Some (JArray xs)
      \<and> length (dietary_restrictions p) = length xs"
    using d(7) by (auto simp: required_Some_iff list_validator_Some_iff dest: list_all2_lengthD)
  show "\<exists>xs. map_of data ''allergies'' = Some (JArray xs) \<and> length (allergies p) = length xs"
    using d(8) by (auto simp: required_Some_iff list_validator_Some_iff dest: list_all2_lengthD)
  show "\<exists>xs. map_of data ''preferences'' = Some (JArray xs) \<and> length (preferences p) = length xs"
    using d(9) by (auto simp: required_Some_iff list_validator_Some_iff dest: list_all2_lengthD)
  show "\<exists>xs. map_of data ''dislikes'' = Some (JArray xs) \<and> length (dislikes p) = length xs"
    using d(10) by (auto simp: required_Some_iff list_validator_Some_iff dest: list_all2_lengthD)
  show "\<exists>xs. map_of data ''cultural_preferences'' = Some (JArray xs)
      \<and> length (cultural_preferences p) = length xs"
    using d(12) by (auto simp: required_Some_iff list_validator_Some_iff dest: list_all2_lengthD)
  show "(target_weight_kg p = None) =
      (map_of data ''target_weight_kg'' = None \<or> map_of data ''target_weight_kg'' = Some JNull)"
  proof (cases "target_weight_kg p")
    case None
    with d(4) show ?thesis by (auto simp: optional_None_iff)
  next
    case (Some x)
    with d(4) show ?thesis by (auto simp: optional_def split: option.splits json.splits if_splits)
  qed
  show "(budget_constraint p = None) =
      (map_of data ''budget_constraint'' = None \<or> map_of data ''budget_constraint'' = Some JNull)"
  proof (cases "budget_constraint p")
    case None
    with d(11) show ?thesis by (auto simp: optional_None_iff)
  next
    case (Some x)
    with d(11) show ?thesis by (auto simp: optional_def split: option.splits json.splits if_splits)
  qed
qed

text \<open>
  Witness for C5: the demo profile without \<open>allergies\<close> is refused; without
  \<open>target_weight_kg\<close>, and with \<open>null\<close> for \<open>budget_constraint\<close> and an empty \<open>allergies\<close>, it is
  accepted by the lenient library with both fields \<open>None\<close> and no allergy.
\<close>

theorem C5_absent_fields_witness:
  "''allergies'' \<in> set [''dietary_restrictions'', ''allergies'', ''preferences'', ''dislikes'',
        ''cultural_preferences'']
   \<and> map_of (dict_del ''allergies'' demo_profile_data) ''allergies'' = None
   \<and> UserProfile_init lenient_library (dict_del ''allergies'' demo_profile_data) = None
   \<and> UserProfile_init lenient_library (dict_del ''target_weight_kg'' demo_profile_data)
       = Some (profile_of 30 165 70 None)
   \<and> map_of (dict_del ''target_weight_kg'' demo_profile_data) ''allergies'' = Some (JArray [])
   \<and> allergies (profile_of 30 165 70 None) = []
   \<and> map_of (dict_del ''target_weight_kg'' demo_profile_data) ''target_weight_kg'' = None
   \<and> target_weight_kg (profile_of 30 165 70 None) = None
   \<and> map_of (dict_del ''target_weight_kg'' demo_profile_data) ''budget_constraint'' = Some JNull
   \<and> budget_constraint (profile_of 30 165 70 None) = None"
proof -
  have k: "''allergies'' \<in> set [''dietary_restrictions'', ''allergies'', ''preferences'',
      ''dislikes'', ''cultural_preferences'']"
    by simp
  have m: "map_of (dict_del ''allergies'' demo_profile_data) ''allergies'' = None"
    by (simp add: dict_del_def demo_profile_data_def profile_data_def)
  have a: "UserProfile_init lenient_library (dict_del ''target_weight_kg'' demo_profile_data)
       = Some (profile_of 30 165 70 None)"
    unfolding demo_profile_data_def
    by (rule profile_without_target_accepted) (simp add: lenient_library_def)
  have lookups:
    "map_of (dict_del ''target_weight_kg'' demo_profile_data) ''allergies'' = Some (JArray [])"
    "map_of (dict_del ''target_weight_kg'' demo_profile_data) ''target_weight_kg'' = None"
    "map_of (dict_del ''target_weight_kg'' demo_profile_data) ''budget_constraint'' = Some JNull"
    by (simp_all add: dict_del_def demo_profile_data_def profile_data_def)
  note t1 = C5_absent_fields [of "''allergies''" "dict_del ''allergies'' demo_profile_data"
      lenient_library demo_profile]
  note t2 = C5_absent_fields [of "''allergies''"
      "dict_del ''target_weight_kg'' demo_profile_data" lenient_library "profile_of 30 165 70 None"]
  from t1 k m have n: "UserProfile_init lenient_library (dict_del ''allergies'' demo_profile_data) = None"
    by blast
  from t2 a lookups have
    "length (allergies (profile_of 30 165 70 None)) = length ([] :: json list)"
    "target_weight_kg (profile_of 30 165 70 None) = None"
    "budget_constraint (profile_of 30 165 70 None) = None"
    by auto
  with k m n a lookups show ?thesis by simp
qed




section \<open>The plan: totals, summary and number of days\<close>

text \<open>
  Claim C1, as stated, fails on the code: no step recomputes a total. The week whose
  Monday has meals of 300, 500 and 700 calories under a total given as 1600 is accepted,
  and the plan built from it (which \<open>create_diet_plan\<close> returns as it is, see
  \<open>create_diet_plan_Some_iff\<close>) keeps 1600, not 1500.
\<close>

theorem C1_totals_counterexample:
  "WeeklyDietPlan_init strict_library overstated_week_data = Some overstated_week
   \<and> map meal_calories (meals (hd (daily_plans overstated_week)))
       = [Some (JInt 300), Some (JInt 500), Some (JInt 700)]
   \<and> total_calories (hd (daily_plans overstated_week)) = 1600
   \<and> (300 :: int) + 500 + 700 = 1500"
  by (simp add: overstated_week_data_def overstated_week_def week_accepted week_of_def
      overstated_days_def day_of_def three_meals_def meal_of_def meal_calories_def)

text \<open>
  Claim C1, amended. For every plan that \<open>create_diet_plan\<close> returns, the oracle's cleaned
  reply parsed to an object whose \<open>daily_plans\<close> is an array with one element per returned
  day, and each returned day's \<open>total_calories\<close>, \<open>total_protein\<close>, \<open>total_carbs\<close> and
  \<open>total_fat\<close> are the values of these keys in that element, validated for their type
  only: the totals are the oracle's, not sums over the meals.
\<close>

theorem C1_totals_as_supplied:
  assumes "snd (create_diet_plan W self profile) = Some plan"
  shows "\<exists>reply data days.
      ChatCompletion_create W (plan_request W self profile) = Inr reply
      \<and> json_loads W (sanitize reply) = Inr (JObject data)
      \<and> map_of data ''daily_plans'' = Some (JArray days)
      \<and> list_all2 (\<lambda>j d. \<exists>dd. dict_validator (pydantic_lib W) j = Some dd
            \<and> required dd ''total_calories'' (int_validator (pydantic_lib W)) = Some (total_calories d)
            \<and> required dd ''total_protein'' (float_validator (pydantic_lib W)) = Some (total_protein d)
            \<and> required dd ''total_carbs'' (float_validator (pydantic_lib W)) = Some (total_carbs d)
            \<and> required dd ''total_fat'' (float_validator (pydantic_lib W)) = Some (total_fat d))
          days (daily_plans plan)"
proof -
  let ?L = "pydantic_lib W"
  from assms obtain reply data where
    r: "ChatCompletion_create W (plan_request W self profile) = Inr reply"
    and j: "json_loads W (sanitize reply) = Inr (JObject data)"
    and v: "WeeklyDietPlan_init ?L data = Some plan"
    by (auto simp: create_diet_plan_Some_iff)
  from WeeklyDietPlan_init_SomeD(2) [OF v] obtain days where
    d: "map_of data ''daily_plans'' = Some (JArray days)"
    and a: "list_all2 (\<lambda>x y. DailyPlan_validator ?L x = Some y) days (daily_plans plan)"
    by (auto simp: required_Some_iff list_validator_Some_iff)
  have "list_all2 (\<lambda>j d. \<exists>dd. dict_validator ?L j = Some dd
            \<and> required dd ''total_calories'' (int_validator ?L) = Some (total_calories d)
            \<and> required dd ''total_protein'' (float_validator ?L) = Some (total_protein d)
            \<and> required dd ''total_carbs'' (float_validator ?L) = Some (total_carbs d)
            \<and> required dd ''total_fat'' (float_validator ?L) = Some (total_fat d))
          days (daily_plans plan)"
    using a
  proof (rule list_all2_mono)
    fix x y
    assume "DailyPlan_validator ?L x = Some y"
    from DailyPlan_validator_SomeD [OF this]
    show "\<exists>dd. dict_validator ?L x = Some dd
            \<and> required dd ''total_calories'' (int_validator ?L) = Some (total_calories y)
            \<and> required dd ''total_protein'' (float_validator ?L) = Some (total_protein y)
            \<and> required dd ''total_carbs'' (float_validator ?L) = Some (total_carbs y)
            \<and> required dd ''total_fat'' (float_validator ?L) = Some (total_fat y)"
      by blast
  qed
  with r j d show ?thesis by blast
qed

text \<open>
  Witness for C1: in a world whose oracle's reply parses to the week above, the plan is
  returned and its totals are read from the reply.
\<close>

theorem C1_totals_as_supplied_witness:
  "snd (create_diet_plan (replying_world overstated_week_data) demo_dietitian demo_profile)
     = Some overstated_week
   \<and> (\<exists>reply data days.
      ChatCompletion_create (replying_world overstated_week_data)
          (plan_request (replying_world overstated_week_data) demo_dietitian demo_profile) = Inr reply
      \<and> json_loads (replying_world overstated_week_data) (sanitize reply) = Inr (JObject data)
      \<and> map_of data ''daily_plans'' = Some (JArray days)
      \<and> list_all2 (\<lambda>j d. \<exists>dd. dict_validator (pydantic_lib (replying_world overstated_week_data)) j = Some dd
            \<and> required dd ''total_calories'' (int_validator (pydantic_lib (replying_world overstated_week_data))) = Some (total_calories d)
            \<and> required dd ''total_protein'' (float_validator (pydantic_lib (replying_world overstated_week_data))) = Some (total_protein d)
            \<and> required dd ''total_carbs'' (float_validator (pydantic_lib (replying_world overstated_week_data))) = Some (total_carbs d)
            \<and> required dd ''total_fat'' (float_validator (pydantic_lib (replying_world overstated_week_data))) = Some (total_fat d))
          days (daily_plans overstated_week))"
proof -
  have h: "snd (create_diet_plan (replying_world overstated_week_data) demo_dietitian demo_profile)
     = Some overstated_week"
    by (rule create_diet_plan_replying)
      (simp add: overstated_week_data_def overstated_week_def week_accepted)
  show ?thesis
    by (rule conjI [OF h C1_totals_as_supplied [OF h]])
qed

text \<open>
  Claim C2, as stated, fails on the code: \<open>weekly_summary\<close> is a \<open>Dict[str, Any]\<close> that no
  step computes or checks. The week with the daily totals 1500, 1600, 1500, 1500, 1400,
  1600, 1500 (sum 10600) and 20 g of protein a day is accepted under a summary that
  says 10500 calories and 25 g, and the summary is kept as given.
\<close>

theorem C2_summary_counterexample:
  "WeeklyDietPlan_init strict_library spec_week_data = Some spec_week
   \<and> map total_calories (daily_plans spec_week) = [1500, 1600, 1500, 1500, 1400, 1600, 1500]
   \<and> sum_list (map total_calories (daily_plans spec_week)) = 10600
   \<and> map_of (weekly_summary spec_week) ''total_calories'' = Some (JInt 10500)
   \<and> map total_protein (daily_plans spec_week) = [20, 20, 20, 20, 20, 20, 20]
   \<and> map_of (weekly_summary spec_week) ''avg_protein'' = Some (JFloat 25)"
  by (simp add: spec_week_data_def spec_week_def week_accepted week_of_def
      spec_days_def day_of_def wrong_summary_def)

text \<open>
  Claim C2, amended. For every plan that \<open>create_diet_plan\<close> returns, \<open>weekly_summary\<close> is
  the value the oracle's reply holds under the key \<open>weekly_summary\<close>, read as a \<open>dict\<close> with
  whatever keys and values it has; it is neither computed from nor compared with the
  daily plans.
\<close>

theorem C2_summary_as_supplied:
  assumes "snd (create_diet_plan W self profile) = Some plan"
  shows "\<exists>reply data v.
      ChatCompletion_create W (plan_request W self profile) = Inr reply
      \<and> json_loads W (sanitize reply) = Inr (JObject data)
      \<and> map_of data ''weekly_summary'' = Some v
      \<and> dict_validator (pydantic_lib W) v = Some (weekly_summary plan)"
proof -
  from assms obtain reply data where
    r: "ChatCompletion_create W (plan_request W self profile) = Inr reply"
    and j: "json_loads W (sanitize reply) = Inr (JObject data)"
    and v: "WeeklyDietPlan_init (pydantic_lib W) data = Some plan"
    by (auto simp: create_diet_plan_Some_iff)
  from WeeklyDietPlan_init_SomeD(3) [OF v] r j show ?thesis
    by (auto simp: required_Some_iff)
qed

text \<open>
  Witness for C2: in a world whose oracle's reply parses to the week above, the plan is
  returned with the summary of the reply.
\<close>

theorem C2_summary_as_supplied_witness:
  "snd (create_diet_plan (replying_world spec_week_data) demo_dietitian demo_profile)
     = Some spec_week
   \<and> (\<exists>reply data v.
      ChatCompletion_create (replying_world spec_week_data)
          (plan_request (replying_world spec_week_data) demo_dietitian demo_profile) = Inr reply
      \<and> json_loads (replying_world spec_week_data) (sanitize reply) = Inr (JObject data)
      \<and> map_of data ''weekly_summary'' = Some v
      \<and> dict_validator (pydantic_lib (replying_world spec_week_data)) v
          = Some (weekly_summary spec_week))"
proof -
  have h: "snd (create_diet_plan (replying_world spec_week_data) demo_dietitian demo_profile)
     = Some spec_week"
    by (rule create_diet_plan_replying)
      (simp add: spec_week_data_def spec_week_def week_accepted)
  show ?thesis
    by (rule conjI [OF h C2_summary_as_supplied [OF h]])
qed

text \<open>
  Claim C6, as stated, fails on the code: \<open>daily_plans\<close> is a \<open>List[DailyPlan]\<close> of any
  length. A week with no day at all is accepted.
\<close>

theorem C6_days_counterexample:
  "WeeklyDietPlan_init strict_library empty_week_data = Some empty_week
   \<and> daily_plans empty_week = []
   \<and> length (daily_plans empty_week) \<noteq> 7"
  by (simp add: empty_week_data_def empty_week_def week_accepted week_of_def)

text \<open>
  Claim C6, amended. Every plan that \<open>create_diet_plan\<close> returns holds exactly one
  validated daily plan per element of the \<open>daily_plans\<close> array of the oracle's reply, in
  the same order, whatever the length of that array; the length is not checked against 7.
\<close>

theorem C6_days_as_supplied:
  assumes "snd (create_diet_plan W self profile) = Some plan"
  shows "\<exists>reply data days.
      ChatCompletion_create W (plan_request W self profile) = Inr reply
      \<and> json_loads W (sanitize reply) = Inr (JObject data)
      \<and> map_of data ''daily_plans'' = Some (JArray days)
      \<and> length (daily_plans plan) = length days
      \<and> list_all2 (\<lambda>j d. DailyPlan_validator (pydantic_lib W) j = Some d) days (daily_plans plan)"
proof -
  from assms obtain reply data where
    r: "ChatCompletion_create W (plan_request W self profile) = Inr reply"
    and j: "json_loads W (sanitize reply) = Inr (JObject data)"
    and v: "WeeklyDietPlan_init (pydantic_lib W) data = Some plan"
    by (auto simp: create_diet_plan_Some_iff)
  from WeeklyDietPlan_init_SomeD(2) [OF v] obtain days where
    d: "map_of data ''daily_plans'' = Some (JArray days)"
    and a: "list_all2 (\<lambda>x y. DailyPlan_validator (pydantic_lib W) x = Some y) days (daily_plans plan)"
    by (auto simp: required_Some_iff list_validator_Some_iff)
  from a have "length (daily_plans plan) = length days"
    by (simp add: list_all2_lengthD)
  with r j d a show ?thesis by blast
qed

text \<open>
  Witness for C6: in a world whose oracle's reply parses to the week without days, that
  plan is returned.
\<close>

theorem C6_days_as_supplied_witness:
  "snd (create_diet_plan (replying_world empty_week_data) demo_dietitian demo_profile)
     = Some empty_week
   \<and> (\<exists>reply data days.
      ChatCompletion_create (replying_world empty_week_data)
          (plan_request (replying_world empty_week_data) demo_dietitian demo_profile) = Inr reply
      \<and> json_loads (replying_world empty_week_data) (sanitize reply) = Inr (JObject data)
      \<and> map_of data ''daily_plans'' = Some (JArray days)
      \<and> length (daily_plans empty_week) = length days
      \<and> list_all2 (\<lambda>j d. DailyPlan_validator (pydantic_lib (replying_world empty_week_data)) j = Some d)
          days (daily_plans empty_week))"
proof -
  have h: "snd (create_diet_plan (replying_world empty_week_data) demo_dietitian demo_profile)
     = Some empty_week"
    by (rule create_diet_plan_replying)
      (simp add: empty_week_data_def empty_week_def week_accepted)
  show ?thesis
    by (rule conjI [OF h C6_days_as_supplied [OF h]])
qed

section \<open>The service functions\<close>

lemma extract_user_profile_failing:
  "extract_user_profile (failing_world e) self h
     = ([OracleCall ProfileExtraction (extract_request (failing_world e) self h),
         PrintProfileError (OracleError e)], None)"
  by (simp add: extract_user_profile_def extract_user_profile_try_def Let_def
      failing_world_def demo_world_def)

lemma create_diet_plan_failing:
  "create_diet_plan (failing_world e) self profile
     = ([OracleCall PlanGeneration (plan_request (failing_world e) self profile),
         PrintPlanError (OracleError e)], None)"
  by (simp add: create_diet_plan_def create_diet_plan_try_def Let_def
      failing_world_def demo_world_def)

lemma chat_calls: "OracleCall PlanGeneration req \<notin> set (fst (chat W self msg h))"
  by (simp add: chat_def Let_def split: sum.splits)

lemma extract_calls:
  "OracleCall PlanGeneration req \<notin> set (fst (extract_user_profile W self h))"
  by (simp add: extract_user_profile_def Let_def split: sum.splits)

text \<open>
  Claim C4, as stated, fails on the code: the failure value of \<open>extract_user_profile\<close> is
  \<open>None\<close>, which carries no reason. Two oracle failures with different texts and a reply
  that is no JSON all return the same \<open>None\<close>; the reason goes to the printed line only.
\<close>

theorem C4_counterexample:
  "extract_user_profile (failing_world ''Rate limit reached'') demo_dietitian demo_history
     = ([OracleCall ProfileExtraction
           (extract_request (failing_world ''Rate limit reached'') demo_dietitian demo_history),
         PrintProfileError (OracleError ''Rate limit reached'')], None)
   \<and> extract_user_profile (failing_world ''Connection error'') demo_dietitian demo_history
     = ([OracleCall ProfileExtraction
           (extract_request (failing_world ''Connection error'') demo_dietitian demo_history),
         PrintProfileError (OracleError ''Connection error'')], None)
   \<and> extract_user_profile garbled_world demo_dietitian demo_history
     = ([OracleCall ProfileExtraction (extract_request garbled_world demo_dietitian demo_history),
         PrintProfileError (JSONDecodeError ''Expecting value: line 1 column 1 (char 0)'')], None)
   \<and> snd (extract_user_profile (failing_world ''Rate limit reached'') demo_dietitian demo_history)
     = snd (extract_user_profile garbled_world demo_dietitian demo_history)"
  by (simp add: extract_user_profile_failing)
    (simp add: extract_user_profile_def extract_user_profile_try_def Let_def
      garbled_world_def demo_world_def)

text \<open>
  Claim C4, amended. For every oracle, parser and library, and every history,
  \<open>extract_user_profile\<close> returns without raising, in one of two ways: it returns a
  \<open>UserProfile\<close> that the validation built from the object the cleaned reply parsed to,
  having printed nothing; or it returns \<open>None\<close> (for an oracle error, a parse error, a
  parsed value that is no object, or a validation error) having printed one line with the
  reason, which the returned value does not carry.
\<close>

theorem C4_extract_returns:
  "(\<exists>p reply data.
      extract_user_profile W self h
        = ([OracleCall ProfileExtraction (extract_request W self h)], Some p)
      \<and> ChatCompletion_create W (extract_request W self h) = Inr reply
      \<and> json_loads W (sanitize reply) = Inr (JObject data)
      \<and> UserProfile_init (pydantic_lib W) data = Some p)
   \<or> (\<exists>e. extract_user_profile W self h
        = ([OracleCall ProfileExtraction (extract_request W self h), PrintProfileError e], None))"
proof -
  let ?req = "extract_request W self h"
  have failed: "extract_user_profile W self h
      = ([OracleCall ProfileExtraction ?req, PrintProfileError e], None)"
    if "extract_user_profile_try W ?req = Inl e" for e
    using that by (simp add: extract_user_profile_def)
  show ?thesis
  proof (cases "ChatCompletion_create W ?req")
    case oracle_raised: (Inl e)
    then have "extract_user_profile_try W ?req = Inl (OracleError e)"
      by (simp add: extract_user_profile_try_def)
    from failed [OF this] show ?thesis by blast
  next
    case replied: (Inr reply)
    show ?thesis
    proof (cases "json_loads W (sanitize reply)")
      case parse_raised: (Inl e)
      with replied have "extract_user_profile_try W ?req = Inl (JSONDecodeError e)"
        by (simp add: extract_user_profile_try_def)
      from failed [OF this] show ?thesis by blast
    next
      case parsed: (Inr profile_data)
      show ?thesis
      proof (cases "\<exists>data. profile_data = JObject data")
        case False
        with replied parsed have "extract_user_profile_try W ?req = Inl TypeError"
          by (cases profile_data) (simp_all add: extract_user_profile_try_def)
        from failed [OF this] show ?thesis by blast
      next
        case True
        then obtain data where data: "profile_data = JObject data" ..
        show ?thesis
        proof (cases "UserProfile_init (pydantic_lib W) data")
          case None
          with replied parsed data
          have "extract_user_profile_try W ?req = Inl ValidationError"
            by (simp add: extract_user_profile_try_def)
          from failed [OF this] show ?thesis by blast
        next
          case (Some p)
          with replied parsed data have "extract_user_profile_try W ?req = Inr p"
            by (simp add: extract_user_profile_try_def)
          then have "extract_user_profile W self h
              = ([OracleCall ProfileExtraction ?req], Some p)"
            by (simp add: extract_user_profile_def)
          with replied parsed data Some show ?thesis by blast
        qed
      qed
    qed
  qed
qed



section \<open>The page\<close>

lemma chat_submitted_cases:
  "(\<exists>msgs. fst (chat_submitted W prompt s) = s\<lparr>ss_messages := msgs\<rparr>)
   \<or> (\<exists>ai p. AIDietitian_init W = Inr ai \<and> ss_user_profile s = None
        \<and> snd (extract_user_profile W ai (ss_messages (fst (chat_submitted W prompt s)))) = Some p
        \<and> ss_user_profile (fst (chat_submitted W prompt s)) = Some p
        \<and> ss_diet_plan (fst (chat_submitted W prompt s)) = ss_diet_plan s)"
  by (auto simp: chat_submitted_def Let_def split: sum.splits prod.splits option.splits)

lemma chat_submitted_calls:
  "OracleCall PlanGeneration req \<notin> set (snd (chat_submitted W prompt s))"
proof (cases "AIDietitian_init W")
  case (Inl e)
  then show ?thesis by (simp add: chat_submitted_def Let_def)
next
  case (Inr ai)
  let ?h1 = "ss_messages s @ [\<lparr>role = ''user'', content = prompt\<rparr>]"
  obtain fx response where c: "chat W ai prompt ?h1 = (fx, response)"
    by (cases "chat W ai prompt ?h1")
  let ?h2 = "ss_messages s @ [\<lparr>role = ''user'', content = prompt\<rparr>,
      \<lparr>role = ''assistant'', content = response\<rparr>]"
  obtain fx2 r where x: "extract_user_profile W ai ?h2 = (fx2, r)"
    by (cases "extract_user_profile W ai ?h2")
  have 1: "OracleCall PlanGeneration req \<notin> set fx"
    using chat_calls [of req W ai prompt ?h1] c by simp
  have 2: "OracleCall PlanGeneration req \<notin> set fx2"
    using extract_calls [of req W ai ?h2] x by simp
  from 1 2 show ?thesis
    by (cases r) (simp_all add: chat_submitted_def Let_def Inr c x)
qed

lemma extract_clicked_cases:
  "fst (extract_clicked W s) = s
   \<or> (\<exists>ai p. AIDietitian_init W = Inr ai
        \<and> snd (extract_user_profile W ai (ss_messages s)) = Some p
        \<and> fst (extract_clicked W s) = s\<lparr>ss_user_profile := Some p\<rparr>)"
  by (auto simp: extract_clicked_def split: sum.splits prod.splits option.splits)

lemma extract_clicked_calls:
  "OracleCall PlanGeneration req \<notin> set (snd (extract_clicked W s))"
proof (cases "AIDietitian_init W")
  case (Inl e)
  then show ?thesis by (simp add: extract_clicked_def)
next
  case (Inr ai)
  obtain fx r where x: "extract_user_profile W ai (ss_messages s) = (fx, r)"
    by (cases "extract_user_profile W ai (ss_messages s)")
  have "OracleCall PlanGeneration req \<notin> set fx"
    using extract_calls [of req W ai "ss_messages s"] x by simp
  then show ?thesis
    by (cases r) (simp_all add: extract_clicked_def Inr x)
qed

lemma generate_clicked_cases:
  "fst (generate_clicked W profile s) = s
   \<or> (\<exists>ai plan. AIDietitian_init W = Inr ai
        \<and> snd (create_diet_plan W ai profile) = Some plan
        \<and> fst (generate_clicked W profile s) = s\<lparr>ss_diet_plan := Some plan\<rparr>)"
  by (auto simp: generate_clicked_def split: sum.splits prod.splits option.splits)

lemma pdf_clicked_state: "fst (pdf_clicked W plan s) = s"
  by (simp add: pdf_clicked_def split: sum.splits)

lemma main_plan_calls:
  assumes "ss_user_profile s = None"
  shows "OracleCall PlanGeneration req \<notin> set (snd (main W ev s))"
proof (cases "ss_conversation_complete s")
  case True
  with assms show ?thesis
    by (cases ev) (simp_all add: main_def)
next
  case False
  with assms show ?thesis
    using chat_submitted_calls [of req W _ s] extract_clicked_calls [of req W s]
    by (cases ev) (simp_all add: main_def split: option.splits)
qed

lemma generate_without_profile:
  assumes "ss_user_profile s = None"
  shows "fst (main W ClickGenerate s) = s"
    and "OracleCall site req \<notin> set (snd (main W ClickGenerate s))"
  using assms by (simp_all add: main_def)

text \<open>
  Claim C8. In a session that holds no profile (the initial session, or one that has only
  chatted), a request to generate the plan changes nothing and calls the oracle not at
  all: the button is disabled, so the branch that builds the dietitian and calls
  \<open>create_diet_plan\<close> is never entered. Whatever the interaction, a run that starts without
  a profile makes no plan-generation call.
\<close>

theorem C8_generate_needs_profile:
  assumes "ss_user_profile s = None"
  shows "fst (main W ClickGenerate s) = s
    \<and> (\<forall>site req. OracleCall site req \<notin> set (snd (main W ClickGenerate s)))
    \<and> (\<forall>ev req. OracleCall PlanGeneration req \<notin> set (snd (main W ev s)))"
  using generate_without_profile [OF assms] main_plan_calls [OF assms] by blast

text \<open>
  Witness for C8: the initial and the chatting session, in a world whose oracle would
  answer with a valid plan if it were asked.
\<close>

theorem C8_generate_needs_profile_witness:
  "ss_user_profile initial_session = None
   \<and> fst (main (replying_world overstated_week_data) ClickGenerate initial_session)
       = initial_session
   \<and> ss_user_profile chatting_session = None
   \<and> fst (main (replying_world overstated_week_data) ClickGenerate chatting_session)
       = chatting_session
   \<and> main (replying_world overstated_week_data) ClickGenerate chatting_session
       = (chatting_session, [])"
proof -
  have i: "ss_user_profile initial_session = None"
    by (simp add: initial_session_def)
  have c: "ss_user_profile chatting_session = None"
    by (simp add: chatting_session_def initial_session_def)
  have e: "main (replying_world overstated_week_data) ClickGenerate chatting_session
       = (chatting_session, [])"
    by (simp add: main_def chatting_session_def initial_session_def)
  from C8_generate_needs_profile [OF i, of "replying_world overstated_week_data"]
    C8_generate_needs_profile [OF c, of "replying_world overstated_week_data"] i c e
  show ?thesis by blast
qed

lemma main_profile_cases:
  "ss_user_profile (fst (main W ev s)) = ss_user_profile s
   \<or> (\<exists>ai p. AIDietitian_init W = Inr ai
        \<and> snd (extract_user_profile W ai (ss_messages (fst (main W ev s)))) = Some p
        \<and> ss_user_profile (fst (main W ev s)) = Some p)
   \<or> ((ev = ClickStartNew \<or> ev = ClickStartOver) \<and> fst (main W ev s) = initial_session)"
proof (cases "ss_conversation_complete s")
  case True
  then show ?thesis
    by (cases ev) (auto simp: main_def pdf_clicked_state split: option.splits)
next
  case False
  show ?thesis
  proof (cases ev)
    case (ChatInput prompt)
    show ?thesis
    proof (cases "prompt = []")
      case True
      with False ChatInput show ?thesis by (simp add: main_def)
    next
      case nonempty: False
      then have m: "main W ev s = chat_submitted W prompt s"
        using False ChatInput by (simp add: main_def)
      from chat_submitted_cases [of W prompt s] show ?thesis
        unfolding m by auto
    qed
  next
    case ClickExtract
    show ?thesis
    proof (cases "ss_messages s = []")
      case True
      with False ClickExtract show ?thesis by (simp add: main_def)
    next
      case nonempty: False
      then have m: "main W ev s = extract_clicked W s"
        using False ClickExtract by (simp add: main_def)
      from extract_clicked_cases [of W s] show ?thesis
        unfolding m by auto
    qed
  next
    case ClickGenerate
    show ?thesis
    proof (cases "ss_user_profile s")
      case None
      with False ClickGenerate show ?thesis by (simp add: main_def)
    next
      case (Some profile)
      then have m: "main W ev s = generate_clicked W profile s"
        using False ClickGenerate by (simp add: main_def)
      from generate_clicked_cases [of W profile s] show ?thesis
        unfolding m by auto
    qed
  qed (use False in \<open>auto simp: main_def split: option.splits\<close>)
qed

lemma main_plan_cases:
  "ss_diet_plan (fst (main W ev s)) = ss_diet_plan s
   \<or> (\<exists>ai profile plan. ev = ClickGenerate \<and> ss_user_profile s = Some profile
        \<and> AIDietitian_init W = Inr ai
        \<and> snd (create_diet_plan W ai profile) = Some plan
        \<and> ss_diet_plan (fst (main W ev s)) = Some plan)
   \<or> ((ev = ClickStartNew \<or> ev = ClickStartOver) \<and> fst (main W ev s) = initial_session)"
proof (cases "ss_conversation_complete s")
  case True
  then show ?thesis
    by (cases ev) (auto simp: main_def pdf_clicked_state split: option.splits)
next
  case False
  show ?thesis
  proof (cases ev)
    case (ChatInput prompt)
    show ?thesis
    proof (cases "prompt = []")
      case True
      with False ChatInput show ?thesis by (simp add: main_def)
    next
      case nonempty: False
      then have m: "main W ev s = chat_submitted W prompt s"
        using False ChatInput by (simp add: main_def)
      from chat_submitted_cases [of W prompt s] show ?thesis
        unfolding m by auto
    qed
  next
    case ClickExtract
    show ?thesis
    proof (cases "ss_messages s = []")
      case True
      with False ClickExtract show ?thesis by (simp add: main_def)
    next
      case nonempty: False
      then have m: "main W ev s = extract_clicked W s"
        using False ClickExtract by (simp add: main_def)
      from extract_clicked_cases [of W s] show ?thesis
        unfolding m by auto
    qed
  next
    case ClickGenerate
    show ?thesis
    proof (cases "ss_user_profile s")
      case None
      with False ClickGenerate show ?thesis by (simp add: main_def)
    next
      case (Some profile)
      then have m: "main W ev s = generate_clicked W profile s"
        using False ClickGenerate by (simp add: main_def)
      from generate_clicked_cases [of W profile s] Some ClickGenerate show ?thesis
        unfolding m by auto
    qed
  qed (use False in \<open>auto simp: main_def split: option.splits\<close>)
qed

lemma extract_failure_keeps_session:
  assumes "AIDietitian_init W = Inr ai"
    and "snd (extract_user_profile W ai (ss_messages s)) = None"
  shows "fst (main W ClickExtract s) = s"
  using assms
  by (cases "extract_user_profile W ai (ss_messages s)")
    (simp add: main_def extract_clicked_def split: option.splits)

lemma generate_failure_keeps_session:
  assumes "ss_user_profile s = Some profile" and "AIDietitian_init W = Inr ai"
    and "snd (create_diet_plan W ai profile) = None"
  shows "fst (main W ClickGenerate s) = s"
  using assms
  by (cases "create_diet_plan W ai profile")
    (simp add: main_def generate_clicked_def split: option.splits)

text \<open>
  Claim C9. A click on "Extract Profile" whose extraction fails, and a click on "Generate
  Diet Plan" whose generation fails, leave the whole session as it was, and the run ends
  normally. In any run the stored profile is what it was, or the one a successful
  extraction in this run returned, or the session was reset by a "start" button; the
  stored plan is what it was, or the one a successful generation in this run returned, or
  the session was reset.
\<close>

theorem C9_failure_keeps_state:
  "(AIDietitian_init W = Inr ai \<and> snd (extract_user_profile W ai (ss_messages s)) = None
      \<longrightarrow> fst (main W ClickExtract s) = s)
   \<and> (ss_user_profile s = Some profile \<and> AIDietitian_init W = Inr ai
        \<and> snd (create_diet_plan W ai profile) = None
      \<longrightarrow> fst (main W ClickGenerate s) = s)
   \<and> (ss_user_profile (fst (main W ev s)) = ss_user_profile s
      \<or> (\<exists>ai p. AIDietitian_init W = Inr ai
           \<and> snd (extract_user_profile W ai (ss_messages (fst (main W ev s)))) = Some p
           \<and> ss_user_profile (fst (main W ev s)) = Some p)
      \<or> ((ev = ClickStartNew \<or> ev = ClickStartOver) \<and> fst (main W ev s) = initial_session))
   \<and> (ss_diet_plan (fst (main W ev s)) = ss_diet_plan s
      \<or> (\<exists>ai profile plan. ev = ClickGenerate \<and> ss_user_profile s = Some profile
           \<and> AIDietitian_init W = Inr ai
           \<and> snd (create_diet_plan W ai profile) = Some plan
           \<and> ss_diet_plan (fst (main W ev s)) = Some plan)
      \<or> ((ev = ClickStartNew \<or> ev = ClickStartOver) \<and> fst (main W ev s) = initial_session))"
  using extract_failure_keeps_session [of W ai s]
    generate_failure_keeps_session [of s profile W ai]
    main_profile_cases [of W ev s] main_plan_cases [of W ev s]
  by blast

text \<open>
  Witness for C9: a session that holds a profile and a plan, in a world whose oracle
  raises on every call; both clicks fail and the session is unchanged.
\<close>

theorem C9_failure_keeps_state_witness:
  "AIDietitian_init (failing_world ''Rate limit reached'') = Inr demo_dietitian
   \<and> snd (extract_user_profile (failing_world ''Rate limit reached'') demo_dietitian
        (ss_messages stored_session)) = None
   \<and> fst (main (failing_world ''Rate limit reached'') ClickExtract stored_session) = stored_session
   \<and> ss_user_profile stored_session = Some demo_profile
   \<and> snd (create_diet_plan (failing_world ''Rate limit reached'') demo_dietitian demo_profile) = None
   \<and> fst (main (failing_world ''Rate limit reached'') ClickGenerate stored_session) = stored_session
   \<and> ss_diet_plan stored_session = Some overstated_week"
proof -
  let ?W = "failing_world ''Rate limit reached''"
  have a: "AIDietitian_init ?W = Inr demo_dietitian"
    by (simp add: failing_world_def AIDietitian_init_demo)
  have x: "snd (extract_user_profile ?W demo_dietitian (ss_messages stored_session)) = None"
    by (simp add: extract_user_profile_failing)
  have g: "snd (create_diet_plan ?W demo_dietitian demo_profile) = None"
    by (simp add: create_diet_plan_failing)
  have p: "ss_user_profile stored_session = Some demo_profile"
    "ss_diet_plan stored_session = Some overstated_week"
    by (simp_all add: stored_session_def)
  from C9_failure_keeps_state [of ?W demo_dietitian stored_session demo_profile NoEvent] a x g p
  show ?thesis by blast
qed

end
